theory Spec2Isabelle
  imports Complex_Main "HOL-Library.Log_Nat"
begin

section \<open>Python values used by plotter.py\<close>

subsection \<open>Strings\<close>

text \<open>
  A Python \<open>str\<close> is a sequence of Unicode code points, so it is modelled as a list of
  natural numbers. \<open>str\<close> turns an ASCII literal of the theory into such a list; the
  Greek letter of \<open>'\<mu>s'\<close> is code point 956.
\<close>

type_synonym pystr = "nat list"

definition str :: "string \<Rightarrow> pystr" where
  "str s = map of_char s"

definition mu_s :: pystr where
  "mu_s = 956 # str ''s''"

text \<open>\<open>str.isspace\<close>: the code points Python treats as whitespace.\<close>

definition isspace :: "nat \<Rightarrow> bool" where
  "isspace c \<longleftrightarrow> c \<in> set [9, 10, 11, 12, 13, 28, 29, 30, 31, 32, 133, 160, 5760,
     8192, 8193, 8194, 8195, 8196, 8197, 8198, 8199, 8200, 8201, 8202,
     8232, 8233, 8239, 8287, 12288]"

text \<open>\<open>s.strip()\<close> removes leading and trailing whitespace.\<close>

definition strip :: "pystr \<Rightarrow> pystr" where
  "strip s = rev (dropWhile isspace (rev (dropWhile isspace s)))"

text \<open>\<open>s.startswith(p)\<close> and the substring test \<open>sub in s\<close>.\<close>

definition startswith :: "pystr \<Rightarrow> pystr \<Rightarrow> bool" where
  "startswith s p \<longleftrightarrow> take (length p) s = p"

fun contains :: "pystr \<Rightarrow> pystr \<Rightarrow> bool" where
  "contains sub [] = (sub = [])"
| "contains sub (c # cs) = (startswith (c # cs) sub \<or> contains sub cs)"

text \<open>
  \<open>s.replace(old, new)\<close>: every non-overlapping occurrence of \<open>old\<close>, found from the
  left, is replaced. With an empty \<open>old\<close> Python inserts \<open>new\<close> before every code point
  and at the end.
\<close>

function replace :: "pystr \<Rightarrow> pystr \<Rightarrow> pystr \<Rightarrow> pystr" where
  "replace old new s =
     (if old = [] then new @ concat (map (\<lambda>c. c # new) s)
      else if s = [] then []
      else if startswith s old then new @ replace old new (drop (length old) s)
      else hd s # replace old new (tl s))"
  by pat_completeness auto
termination
  by (relation "measure (\<lambda>(old, new, s). length s)") auto

declare replace.simps [simp del]

subsection \<open>Floats\<close>

text \<open>
  A Python \<open>float\<close> is an IEEE 754 binary64 value. A finite value is kept as the
  rational number it denotes; the sign of zero is not tracked (Python compares
  \<open>-0.0 == 0.0\<close> as true). Every arithmetic result is rounded to binary64 by
  \<open>b64_round\<close>: round to nearest, ties to even, with gradual underflow and overflow
  to infinity.
\<close>

datatype pyfloat = Finite rat | PosInf | NegInf | NaN

definition round_half_even :: "rat \<Rightarrow> int" where
  "round_half_even q =
     (let f = \<lfloor>q\<rfloor>; d = q - of_int f
      in if d < 1 / 2 then f else if 1 / 2 < d then f + 1 else if even f then f else f + 1)"

text \<open>\<open>ilog2 a\<close> is \<open>\<lfloor>log\<^sub>2 a\<rfloor>\<close> for a positive rational \<open>a\<close>.\<close>

definition ilog2 :: "rat \<Rightarrow> int" where
  "ilog2 a =
     (let (n, d) = quotient_of a; k = bitlen n - bitlen d
      in if 2 powi k \<le> a then k else k - 1)"

definition b64_round :: "rat \<Rightarrow> pyfloat" where
  "b64_round q =
     (if q = 0 then Finite 0
      else let a = \<bar>q\<bar>;
               e = max (ilog2 a) (- 1022);
               m = round_half_even (a * 2 powi (52 - e));
               v = of_int m * 2 powi (e - 52)
           in if 2 ^ 1024 \<le> v then (if 0 < q then PosInf else NegInf)
              else Finite (sgn q * v))"

definition fneg :: "pyfloat \<Rightarrow> pyfloat" where
  "fneg x = (case x of Finite q \<Rightarrow> Finite (- q) | PosInf \<Rightarrow> NegInf | NegInf \<Rightarrow> PosInf
             | NaN \<Rightarrow> NaN)"

text \<open>
  \<open>x / k\<close> and \<open>x * k\<close> for a float \<open>x\<close> and a positive integer constant \<open>k\<close> that
  binary64 represents exactly (1000 and 1024 in the script). Neither raises.
\<close>

definition truediv :: "pyfloat \<Rightarrow> rat \<Rightarrow> pyfloat" where
  "truediv x k = (case x of Finite q \<Rightarrow> b64_round (q / k) | _ \<Rightarrow> x)"

definition mul :: "pyfloat \<Rightarrow> rat \<Rightarrow> pyfloat" where
  "mul x k = (case x of Finite q \<Rightarrow> b64_round (q * k) | _ \<Rightarrow> x)"

subsection \<open>Exceptions\<close>

text \<open>
  The exceptions the script can end with. The specification calls them
  \<open>NotFoundError\<close> (\<open>FileNotFoundError\<close>), \<open>ParseError\<close> and \<open>FormatError\<close>
  (\<open>ValueError\<close>, raised by \<open>float\<close>). pandas raises \<open>EmptyDataError\<close> for a file
  without a header line, \<open>ParserError\<close> for a line with too many fields, \<open>KeyError\<close>
  for a column that the table does not have, and \<open>AttributeError\<close> when the \<open>.str\<close>
  accessor is used on a column that does not hold strings.
\<close>

datatype error =
  FileNotFoundError | EmptyDataError | ParserError | KeyError pystr | AttributeError | ValueError

subsection \<open>The builtin \<open>float\<close> on a string\<close>

text \<open>
  The 66 code points with decimal value 0 (Unicode 14); each starts a run of the ten
  digits of one script. \<open>decimal\<close> is the decimal value of a code point, if it has one.
\<close>

definition decimal_zeros :: "nat list" where
  "decimal_zeros = [48, 1632, 1776, 1984, 2406, 2534, 2662, 2790, 2918, 3046, 3174, 3302,
     3430, 3558, 3664, 3792, 3872, 4160, 4240, 6112, 6160, 6470, 6608, 6784, 6800, 6992,
     7088, 7232, 7248, 42528, 43216, 43264, 43472, 43504, 43600, 44016, 65296, 66720,
     68912, 69734, 69872, 69942, 70096, 70384, 70736, 70864, 71248, 71360, 71472, 71904,
     72016, 72784, 73040, 73120, 92768, 92864, 93008, 120782, 120792, 120802, 120812,
     120822, 123200, 123632, 125264, 130032]"

definition decimal :: "nat \<Rightarrow> nat option" where
  "decimal c =
     (case filter (\<lambda>z. z \<le> c \<and> c < z + 10) decimal_zeros of
        [] \<Rightarrow> None
      | z # _ \<Rightarrow> Some (c - z))"

text \<open>
  \<open>float\<close> first rewrites the string to ASCII: an ASCII code point is kept, any other
  whitespace becomes a space, any other decimal digit becomes the ASCII digit of its
  value, and anything else becomes \<open>?\<close> (code point 63), which no number contains.
\<close>

definition to_ascii :: "nat \<Rightarrow> nat" where
  "to_ascii c =
     (if c < 128 then c
      else if isspace c then 32
      else case decimal c of None \<Rightarrow> 63 | Some d \<Rightarrow> 48 + d)"

text \<open>The C locale's whitespace, which \<open>float\<close> strips from both ends.\<close>

definition ascii_space :: "nat \<Rightarrow> bool" where
  "ascii_space c \<longleftrightarrow> c \<in> set [9, 10, 11, 12, 13, 32]"

definition is_digit :: "nat \<Rightarrow> bool" where
  "is_digit c \<longleftrightarrow> 48 \<le> c \<and> c \<le> 57"

text \<open>
  An underscore (code point 95) is allowed only between two digits; the underscores
  are removed. The first argument is the previous code point.
\<close>

fun strip_underscores :: "nat \<Rightarrow> pystr \<Rightarrow> pystr option" where
  "strip_underscores prev [] = (if prev = 95 then None else Some [])"
| "strip_underscores prev (c # cs) =
     (if c = 95 then (if is_digit prev then strip_underscores c cs else None)
      else if prev = 95 \<and> \<not> is_digit c then None
      else map_option ((#) c) (strip_underscores c cs))"

definition digits_value :: "pystr \<Rightarrow> nat" where
  "digits_value ds = foldl (\<lambda>a c. 10 * a + (c - 48)) 0 ds"

definition lower :: "nat \<Rightarrow> nat" where
  "lower c = (if 65 \<le> c \<and> c \<le> 90 then c + 32 else c)"

text \<open>An optional sign: whether it is \<open>-\<close> (code point 45), and the rest.\<close>

definition parse_sign :: "pystr \<Rightarrow> bool \<times> pystr" where
  "parse_sign s =
     (case s of
        [] \<Rightarrow> (False, [])
      | c # cs \<Rightarrow> if c = 45 then (True, cs) else if c = 43 then (False, cs) else (False, s))"

text \<open>What follows the mantissa: nothing, or \<open>e\<close> or \<open>E\<close>, an optional sign and digits.\<close>

definition parse_exponent :: "pystr \<Rightarrow> int option" where
  "parse_exponent s =
     (case s of
        [] \<Rightarrow> Some 0
      | c # cs \<Rightarrow>
          if c = 101 \<or> c = 69 then
            (let (neg, ds) = parse_sign cs
             in if ds \<noteq> [] \<and> list_all is_digit ds
                then Some (if neg then - int (digits_value ds) else int (digits_value ds))
                else None)
          else None)"

text \<open>
  An unsigned decimal number: digits, an optional point (code point 46) and digits, with
  a digit on at least one side of the point, and an optional exponent. The result is
  its exact value.
\<close>

definition parse_decimal :: "pystr \<Rightarrow> rat option" where
  "parse_decimal s =
     (let ip = takeWhile is_digit s;
          r1 = dropWhile is_digit s;
          (fp, r2) = (case r1 of
                        [] \<Rightarrow> ([], [])
                      | c # cs \<Rightarrow> if c = 46 then (takeWhile is_digit cs, dropWhile is_digit cs)
                                 else ([], r1))
      in if ip = [] \<and> fp = [] then None
         else case parse_exponent r2 of
                None \<Rightarrow> None
              | Some e \<Rightarrow> Some (of_nat (digits_value (ip @ fp)) * 10 powi (e - int (length fp))))"

definition parse_abs :: "pystr \<Rightarrow> pyfloat option" where
  "parse_abs s =
     (let l = map lower s
      in if l = str ''inf'' \<or> l = str ''infinity'' then Some PosInf
         else if l = str ''nan'' then Some NaN
         else map_option b64_round (parse_decimal s))"

definition py_float :: "pystr \<Rightarrow> error + pyfloat" where
  "py_float s =
     (let a = map to_ascii s;
          t = rev (dropWhile ascii_space (rev (dropWhile ascii_space a)))
      in case strip_underscores 0 t of
           None \<Rightarrow> Inl ValueError
         | Some u \<Rightarrow>
             (let (neg, r) = parse_sign u
              in case parse_abs r of
                   None \<Rightarrow> Inl ValueError
                 | Some x \<Rightarrow> Inr (if neg then fneg x else x)))"

section \<open>The timing normalizer\<close>

text \<open>
  A cell of a text column as pandas reads it: a \<open>str\<close>, or the float NaN for an empty
  field. \<open>py_str\<close> is the builtin \<open>str\<close> on such a value.
\<close>

datatype cell = Text pystr | Missing

definition py_str :: "cell \<Rightarrow> pystr" where
  "py_str v = (case v of Text s \<Rightarrow> s | Missing \<Rightarrow> str ''nan'')"

definition convert_to_us :: "cell \<Rightarrow> error + pyfloat" where
  "convert_to_us time_str =
     (let s = strip (py_str time_str)
      in if contains (str ''ns'') s then
           map_sum id (\<lambda>x. truediv x 1000)
             (py_float (replace (str '','') [] (replace (str ''ns'') [] s)))
         else if contains (str ''us'') s \<or> contains mu_s s then
           py_float (replace (str '','') [] (replace mu_s [] (replace (str ''us'') [] s)))
         else if contains (str ''ms'') s then
           map_sum id (\<lambda>x. mul x 1000)
             (py_float (replace (str '','') [] (replace (str ''ms'') [] s)))
         else py_float (replace (str '','') [] s))"

subsection \<open>The normalizer as the specification words it\<close>

text \<open>
  The specification describes the normalizer as: strip surrounding whitespace, find the
  unit by priority (\<open>ns\<close>, then \<open>us\<close> or \<open>\<mu>s\<close>, then \<open>ms\<close>, else none), remove the unit
  text and the thousands separators, parse the rest as a number and scale it to
  microseconds. \<open>normalize_spec\<close> is written from those words.
\<close>

datatype time_unit = Nanoseconds | Microseconds | Milliseconds | Bare

definition detect_unit :: "pystr \<Rightarrow> time_unit" where
  "detect_unit s =
     (if contains (str ''ns'') s then Nanoseconds
      else if contains (str ''us'') s \<or> contains mu_s s then Microseconds
      else if contains (str ''ms'') s then Milliseconds
      else Bare)"

fun unit_names :: "time_unit \<Rightarrow> pystr list" where
  "unit_names Nanoseconds = [str ''ns'']"
| "unit_names Microseconds = [str ''us'', mu_s]"
| "unit_names Milliseconds = [str ''ms'']"
| "unit_names Bare = []"

fun to_microseconds :: "time_unit \<Rightarrow> pyfloat \<Rightarrow> pyfloat" where
  "to_microseconds Nanoseconds x = truediv x 1000"
| "to_microseconds Microseconds x = x"
| "to_microseconds Milliseconds x = mul x 1000"
| "to_microseconds Bare x = x"

text \<open>The text left after the unit names and the separators are taken out.\<close>

definition remaining_text :: "time_unit \<Rightarrow> pystr \<Rightarrow> pystr" where
  "remaining_text u s = replace (str '','') [] (foldl (\<lambda>t name. replace name [] t) s (unit_names u))"

definition normalize_spec :: "cell \<Rightarrow> error + pyfloat" where
  "normalize_spec v =
     (let s = strip (py_str v); u = detect_unit s
      in case py_float (remaining_text u s) of
           Inl e \<Rightarrow> Inl e
         | Inr x \<Rightarrow> Inr (to_microseconds u x))"

section \<open>The table and the charts\<close>

subsection \<open>The DataFrame\<close>

text \<open>
  The table is a pandas \<open>DataFrame\<close>: rows with an index, and named columns. The index
  holds for each row its position in the file it was read from. pandas labels the rows
  with these positions, or with the leading fields of the lines when the data lines are
  longer than the header; the script never reads the labels, so that the positions stand
  for them. The script reads the columns \<open>Method\<close>, \<open>Size\<close>, \<open>Mean\<close> and \<open>Allocated\<close> and adds
  \<open>Mean_us\<close>; a column is \<open>None\<close> when the table does not have it, and reading it then
  raises \<open>KeyError\<close>. The columns have the types of the report format: \<open>Method\<close>,
  \<open>Mean\<close> and \<open>Allocated\<close> hold text or NaN, \<open>Size\<close> holds integers. Columns of other
  names are never read and are left out.

  pandas gives every column a dtype when it reads the file. A column with a field that
  is neither empty nor a number stays a column of strings (dtype \<open>object\<close>), and so does
  every column of a file without data rows. A column whose fields are all empty or all
  numbers becomes a numeric column (\<open>float64\<close> or \<open>int64\<close>); its cells are kept here as
  the texts of the fields. The script depends on the dtype of \<open>Method\<close> and of
  \<open>Allocated\<close>, on which it uses the \<open>.str\<close> accessor.
\<close>

datatype dtype = ObjectDtype | NumericDtype

record frame =
  index :: "nat list"
  Method :: "cell list option"
  Size :: "int list option"
  Mean :: "cell list option"
  Allocated :: "cell list option"
  Mean_us :: "pyfloat list option"
  Method_dtype :: dtype
  Allocated_dtype :: dtype

definition and_then :: "error + 'a \<Rightarrow> ('a \<Rightarrow> error + 'b) \<Rightarrow> error + 'b" where
  "and_then r f = (case r of Inl e \<Rightarrow> Inl e | Inr x \<Rightarrow> f x)"

text \<open>\<open>column.str\<close>: the string accessor, or \<open>AttributeError\<close> on a column without strings.\<close>

definition str_accessor :: "dtype \<Rightarrow> cell list \<Rightarrow> error + cell list" where
  "str_accessor d col = (case d of ObjectDtype \<Rightarrow> Inr col | NumericDtype \<Rightarrow> Inl AttributeError)"

text \<open>\<open>t[name]\<close>: the column, or \<open>KeyError\<close>.\<close>

definition getitem :: "pystr \<Rightarrow> 'a list option \<Rightarrow> error + 'a list" where
  "getitem name col = (case col of None \<Rightarrow> Inl (KeyError name) | Some xs \<Rightarrow> Inr xs)"

text \<open>
  \<open>t[mask]\<close> with a boolean column: a new frame with the rows whose mask entry is true, in
  their order, with their labels. The frame \<open>t\<close> itself is not changed.
\<close>

definition select :: "bool list \<Rightarrow> 'a list \<Rightarrow> 'a list" where
  "select keep xs = map snd (filter fst (zip keep xs))"

definition mask_rows :: "bool list \<Rightarrow> frame \<Rightarrow> frame" where
  "mask_rows keep t =
     \<lparr>index = select keep (index t),
      Method = map_option (select keep) (Method t),
      Size = map_option (select keep) (Size t),
      Mean = map_option (select keep) (Mean t),
      Allocated = map_option (select keep) (Allocated t),
      Mean_us = map_option (select keep) (Mean_us t),
      Method_dtype = Method_dtype t,
      Allocated_dtype = Allocated_dtype t\<rparr>"

text \<open>\<open>t.empty\<close>: the frame has no rows.\<close>

definition empty :: "frame \<Rightarrow> bool" where
  "empty t \<longleftrightarrow> index t = []"

text \<open>
  The column predicates of the script. \<open>str.contains(pat, na=False)\<close> is false on NaN;
  the patterns of the script have no regular-expression operator, so the search is the
  substring test. \<open>isin\<close> and \<open>==\<close> are false on NaN, \<open>notna\<close> is false exactly on NaN.
\<close>

definition str_contains :: "pystr \<Rightarrow> cell \<Rightarrow> bool" where
  "str_contains pat c = (case c of Text s \<Rightarrow> contains pat s | Missing \<Rightarrow> False)"

definition isin :: "pystr list \<Rightarrow> cell \<Rightarrow> bool" where
  "isin vs c = (case c of Text s \<Rightarrow> s \<in> set vs | Missing \<Rightarrow> False)"

definition notna :: "cell \<Rightarrow> bool" where
  "notna c = (case c of Text s \<Rightarrow> True | Missing \<Rightarrow> False)"

definition eq_cell :: "cell \<Rightarrow> cell \<Rightarrow> bool" where
  "eq_cell m c = (case m of Text s \<Rightarrow> c = Text s | Missing \<Rightarrow> False)"

text \<open>\<open>Series.unique()\<close>: the distinct values in order of first appearance.\<close>

fun unique :: "'a list \<Rightarrow> 'a list" where
  "unique [] = []"
| "unique (x # xs) = x # unique (filter (\<lambda>y. y \<noteq> x) xs)"

subsection \<open>Loading and normalizing\<close>

text \<open>
  A file is modelled by the records that the tokenizer of pandas yields: one list of
  fields for each line that is not blank, split at \<open>;\<close>, the first of them the header.
  Splitting and unquoting the text are not part of the model. The file system maps a
  path to the records of the file there.

  What pandas makes of the text of single fields is taken as a parameter, since it is
  not code of the script: which texts stand for a missing value (\<open>is_na\<close>), which
  dtype a column of field texts gets (\<open>dtype_of\<close>), and the integer of a \<open>Size\<close> field
  (\<open>int_of\<close>).
\<close>

record converters =
  is_na :: "pystr \<Rightarrow> bool"
  dtype_of :: "pystr list \<Rightarrow> dtype"
  int_of :: "pystr \<Rightarrow> int"

definition to_cell :: "converters \<Rightarrow> pystr \<Rightarrow> cell" where
  "to_cell conv f = (if is_na conv f then Missing else Text f)"

text \<open>
  The number of fields pandas expects in each data line: that of the header, or that of
  the first data line when it has more. The surplus fields at the start of each line
  are then taken as row labels (the implicit index), and the names of the header belong
  to the fields after them. A data line with fewer fields is filled up with empty
  fields.
\<close>

definition width :: "pystr list \<Rightarrow> pystr list list \<Rightarrow> nat" where
  "width header data =
     (case data of [] \<Rightarrow> length header | r # _ \<Rightarrow> max (length header) (length r))"

definition field_at :: "pystr list \<Rightarrow> nat \<Rightarrow> pystr" where
  "field_at r j = (if j < length r then r ! j else [])"

text \<open>
  The position of a column in the header. Of two columns with one name pandas renames
  the second, so the name itself finds the first.
\<close>

fun find_column :: "pystr \<Rightarrow> pystr list \<Rightarrow> nat option" where
  "find_column name [] = None"
| "find_column name (h # hs) = (if h = name then Some 0 else map_option Suc (find_column name hs))"

definition column_fields :: "pystr list \<Rightarrow> pystr list list \<Rightarrow> pystr \<Rightarrow> pystr list option" where
  "column_fields header data name =
     map_option (\<lambda>j. map (\<lambda>r. field_at r (width header data - length header + j)) data)
       (find_column name header)"

text \<open>A column without rows has dtype \<open>object\<close>; otherwise pandas infers the dtype.\<close>

definition column_dtype :: "converters \<Rightarrow> pystr list option \<Rightarrow> dtype" where
  "column_dtype conv col =
     (case col of
        None \<Rightarrow> ObjectDtype
      | Some texts \<Rightarrow> (if texts = [] then ObjectDtype else dtype_of conv texts))"

text \<open>
  \<open>pd.read_csv(path, delimiter=';')\<close> raises \<open>FileNotFoundError\<close> when there is no file,
  \<open>EmptyDataError\<close> when the file has no header line, and \<open>ParserError\<close> when a data line
  has more fields than expected. It does not look at the names in the header. The rows
  keep their positions in the file as index. Errors of reading, decoding and unquoting
  the text come before the records and are not part of the model.
\<close>

definition read_csv ::
  "converters \<Rightarrow> (pystr \<Rightarrow> pystr list list option) \<Rightarrow> pystr \<Rightarrow> error + frame" where
  "read_csv conv fs path =
     (case fs path of
        None \<Rightarrow> Inl FileNotFoundError
      | Some [] \<Rightarrow> Inl EmptyDataError
      | Some (header # data) \<Rightarrow>
          if list_ex (\<lambda>r. width header data < length r) data then Inl ParserError
          else Inr \<lparr>index = [0..<length data],
                    Method = map_option (map (to_cell conv))
                               (column_fields header data (str ''Method'')),
                    Size = map_option (map (int_of conv))
                             (column_fields header data (str ''Size'')),
                    Mean = map_option (map (to_cell conv))
                             (column_fields header data (str ''Mean'')),
                    Allocated = map_option (map (to_cell conv))
                                  (column_fields header data (str ''Allocated'')),
                    Mean_us = None,
                    Method_dtype = column_dtype conv (column_fields header data (str ''Method'')),
                    Allocated_dtype =
                      column_dtype conv (column_fields header data (str ''Allocated''))\<rparr>)"

text \<open>\<open>Series.apply(f)\<close> calls \<open>f\<close> on each value in order; the first exception ends it.\<close>

fun series_apply :: "('a \<Rightarrow> error + 'b) \<Rightarrow> 'a list \<Rightarrow> error + 'b list" where
  "series_apply f [] = Inr []"
| "series_apply f (x # xs) =
     (case f x of
        Inl e \<Rightarrow> Inl e
      | Inr y \<Rightarrow> (case series_apply f xs of Inl e \<Rightarrow> Inl e | Inr ys \<Rightarrow> Inr (y # ys)))"

text \<open>\<open>df['Mean_us'] = df['Mean'].apply(convert_to_us)\<close>\<close>

definition normalize_mean :: "frame \<Rightarrow> error + frame" where
  "normalize_mean df =
     and_then (getitem (str ''Mean'') (Mean df)) (\<lambda>mean.
     and_then (series_apply convert_to_us mean) (\<lambda>us.
     Inr (df\<lparr>Mean_us := Some us\<rparr>)))"

subsection \<open>The charting collaborator\<close>

text \<open>
  Of matplotlib's state the model keeps the line series of the current figure and the
  images saved so far. Labels, scales, grid, legend and \<open>show\<close> do not change either.
\<close>

record series =
  label :: cell
  xdata :: "int list"
  ydata :: "pyfloat list"

record pyplot =
  lines :: "series list"
  saved :: "(pystr \<times> series list) list"

definition figure :: "pyplot \<Rightarrow> pyplot" where
  "figure p = p\<lparr>lines := []\<rparr>"

definition plot :: "int list \<Rightarrow> pyfloat list \<Rightarrow> cell \<Rightarrow> pyplot \<Rightarrow> pyplot" where
  "plot x y m p = p\<lparr>lines := lines p @ [\<lparr>label = m, xdata = x, ydata = y\<rparr>]\<rparr>"

definition savefig :: "pystr \<Rightarrow> pyplot \<Rightarrow> pyplot" where
  "savefig name p = p\<lparr>saved := saved p @ [(name, lines p)]\<rparr>"

subsection \<open>The four chart passes\<close>

text \<open>The state of the run after normalization: the table and the charts.\<close>

record state =
  df :: frame
  plt :: pyplot

text \<open>A \<open>for\<close> loop over a list whose body may raise.\<close>

fun for_each :: "('a \<Rightarrow> 's \<Rightarrow> error + 's) \<Rightarrow> 'a list \<Rightarrow> 's \<Rightarrow> error + 's" where
  "for_each body [] p = Inr p"
| "for_each body (m # ms) p = and_then (body m p) (for_each body ms)"

text \<open>The selections: \<open>df[df['Method'].str.contains('Fill', na=False)]\<close> and its siblings.\<close>

definition fill_methods :: "frame \<Rightarrow> error + frame" where
  "fill_methods t =
     and_then (getitem (str ''Method'') (Method t)) (\<lambda>m.
     and_then (str_accessor (Method_dtype t) m) (\<lambda>s.
     Inr (mask_rows (map (str_contains (str ''Fill'')) s) t)))"

definition foreach_methods :: "frame \<Rightarrow> error + frame" where
  "foreach_methods t =
     and_then (getitem (str ''Method'') (Method t)) (\<lambda>m.
     and_then (str_accessor (Method_dtype t) m) (\<lambda>s.
     Inr (mask_rows (map (str_contains (str ''ForEach'')) s) t)))"

definition read_methods :: "frame \<Rightarrow> error + frame" where
  "read_methods t =
     and_then (getitem (str ''Method'') (Method t)) (\<lambda>m.
     Inr (mask_rows (map (isin [str ''GetRow'', str ''GetColumn'']) m) t))"

definition allocated_data :: "frame \<Rightarrow> error + frame" where
  "allocated_data t =
     and_then (getitem (str ''Allocated'') (Allocated t)) (\<lambda>a.
     Inr (mask_rows (map notna a) t))"

text \<open>
  The loop body of the three timing charts:
  \<open>data = sub[sub['Method'] == method]; plt.plot(data['Size'], data['Mean_us'], label=method)\<close>
\<close>

definition plot_timing :: "frame \<Rightarrow> cell \<Rightarrow> pyplot \<Rightarrow> error + pyplot" where
  "plot_timing sub method p =
     and_then (getitem (str ''Method'') (Method sub)) (\<lambda>m.
     let data = mask_rows (map (eq_cell method) m) sub in
     and_then (getitem (str ''Size'') (Size data)) (\<lambda>x.
     and_then (getitem (str ''Mean_us'') (Mean_us data)) (\<lambda>y.
     Inr (plot x y method p))))"

definition graph1 :: "state \<Rightarrow> error + state" where
  "graph1 st =
     and_then (fill_methods (df st)) (\<lambda>sub.
     and_then (getitem (str ''Method'') (Method sub)) (\<lambda>m.
     and_then (for_each (plot_timing sub) (unique m) (figure (plt st))) (\<lambda>p.
     Inr (st\<lparr>plt := savefig (str ''fill_comparison.png'') p\<rparr>))))"

definition graph2 :: "state \<Rightarrow> error + state" where
  "graph2 st =
     and_then (foreach_methods (df st)) (\<lambda>sub.
     and_then (getitem (str ''Method'') (Method sub)) (\<lambda>m.
     and_then (for_each (plot_timing sub) (unique m) (figure (plt st))) (\<lambda>p.
     Inr (st\<lparr>plt := savefig (str ''foreach_comparison.png'') p\<rparr>))))"

definition graph3 :: "state \<Rightarrow> error + state" where
  "graph3 st =
     and_then (read_methods (df st)) (\<lambda>sub.
     and_then (getitem (str ''Method'') (Method sub)) (\<lambda>m.
     and_then (for_each (plot_timing sub) (unique m) (figure (plt st))) (\<lambda>p.
     Inr (st\<lparr>plt := savefig (str ''read_operations.png'') p\<rparr>))))"

text \<open>
  The memory chart converts the \<open>Allocated\<close> column of one method:
  \<open>data['Allocated'].str.replace(' B', '').str.replace(',', '').astype(float) / 1024\<close>.
  The first \<open>.str\<close> raises \<open>AttributeError\<close> unless the column holds strings;
  \<open>str.replace\<close> leaves NaN as it is, \<open>astype(float)\<close> applies \<open>float\<close> to each text.
\<close>

definition str_replace :: "pystr \<Rightarrow> pystr \<Rightarrow> cell \<Rightarrow> cell" where
  "str_replace old new c = (case c of Text s \<Rightarrow> Text (replace old new s) | Missing \<Rightarrow> Missing)"

definition astype_float :: "cell \<Rightarrow> error + pyfloat" where
  "astype_float c = (case c of Text s \<Rightarrow> py_float s | Missing \<Rightarrow> Inr NaN)"

definition allocated_kb :: "dtype \<Rightarrow> cell list \<Rightarrow> error + pyfloat list" where
  "allocated_kb d col =
     and_then (str_accessor d col) (\<lambda>s.
     and_then
       (series_apply astype_float (map (str_replace (str '','') []) (map (str_replace (str '' B'') []) s)))
       (\<lambda>bytes. Inr (map (\<lambda>x. truediv x 1024) bytes)))"

definition plot_allocated :: "frame \<Rightarrow> cell \<Rightarrow> pyplot \<Rightarrow> error + pyplot" where
  "plot_allocated allocated method p =
     and_then (getitem (str ''Method'') (Method allocated)) (\<lambda>m.
     let data = mask_rows (map (eq_cell method) m) allocated in
     if empty data then Inr p
     else and_then (getitem (str ''Allocated'') (Allocated data)) (\<lambda>a.
          and_then (allocated_kb (Allocated_dtype data) a) (\<lambda>kb.
          and_then (getitem (str ''Size'') (Size data)) (\<lambda>x.
          Inr (plot x kb method p)))))"

definition graph4 :: "state \<Rightarrow> error + state" where
  "graph4 st =
     and_then (allocated_data (df st)) (\<lambda>allocated.
     and_then (fill_methods (df st)) (\<lambda>sub.
     and_then (getitem (str ''Method'') (Method sub)) (\<lambda>m.
     and_then (for_each (plot_allocated allocated) (unique m) (figure (plt st))) (\<lambda>p.
     Inr (st\<lparr>plt := savefig (str ''memory_allocation.png'') p\<rparr>)))))"

text \<open>The script: load, normalize, then the four passes in the order of the file.\<close>

definition report_path :: pystr where
  "report_path =
     str ''../BenchmarkDotNet.Artifacts/results/Matrix.Benchmarks.MatrixBenchmarks-report.csv''"

definition script ::
  "converters \<Rightarrow> (pystr \<Rightarrow> pystr list list option) \<Rightarrow> error + state" where
  "script conv fs =
     and_then (read_csv conv fs report_path) (\<lambda>t.
     and_then (normalize_mean t) (\<lambda>d.
     and_then (graph1 \<lparr>df = d, plt = \<lparr>lines = [], saved = []\<rparr>\<rparr>) (\<lambda>s1.
     and_then (graph2 s1) (\<lambda>s2.
     and_then (graph3 s2) graph4))))"

section \<open>Notions of the specification and example tables\<close>


text \<open>A table of two rows whose second \<open>Mean\<close> field is empty.\<close>

definition table_missing_mean :: frame where
  "table_missing_mean =
     \<lparr>index = [0, 1], Method = Some [Text (str ''Fill_N''), Text (str ''Fill_N'')],
      Size = Some [100, 200], Mean = Some [Text (str ''1us''), Missing],
      Allocated = Some [Missing, Missing], Mean_us = None, Method_dtype = ObjectDtype,
      Allocated_dtype = NumericDtype\<rparr>"

text \<open>
  A table with one method for each case of the selections: a Fill method, a method in
  lower case, a missing method, a ForEach method, \<open>GetRow\<close> and \<open>GetRowFast\<close>.
\<close>

definition methods_column :: "cell list" where
  "methods_column =
     [Text (str ''Fill_N''), Text (str ''fill''), Missing, Text (str ''ForEach_N''),
      Text (str ''GetRow''), Text (str ''GetRowFast'')]"

definition table_methods :: frame where
  "table_methods =
     \<lparr>index = [0, 1, 2, 3, 4, 5], Method = Some methods_column,
      Size = Some [100, 100, 100, 100, 100, 100],
      Mean = Some [Text (str ''1us''), Text (str ''1us''), Text (str ''1us''), Text (str ''1us''),
                   Text (str ''1us''), Text (str ''1us'')],
      Allocated = Some [Missing, Missing, Missing, Missing, Missing, Missing],
      Mean_us = None, Method_dtype = ObjectDtype,
      Allocated_dtype = NumericDtype\<rparr>"

text \<open>
  A table of two rows whose \<open>Method\<close> fields are all empty: pandas reads the column as
  \<open>float64\<close>, every cell NaN.
\<close>

definition table_method_missing :: frame where
  "table_method_missing =
     \<lparr>index = [0, 1], Method = Some [Missing, Missing], Size = Some [100, 200],
      Mean = Some [Text (str ''50us''), Text (str ''100us'')],
      Allocated = Some [Text (str ''1,024 B''), Text (str ''2,048 B'')], Mean_us = None,
      Method_dtype = NumericDtype, Allocated_dtype = ObjectDtype\<rparr>"

text \<open>A table of one row without any of the four columns, and a table that only lacks \<open>Size\<close>.\<close>

definition table_other_columns :: frame where
  "table_other_columns =
     \<lparr>index = [0], Method = None, Size = None, Mean = None, Allocated = None,
      Mean_us = None, Method_dtype = ObjectDtype,
      Allocated_dtype = ObjectDtype\<rparr>"

definition table_without_size :: frame where
  "table_without_size =
     \<lparr>index = [0], Method = Some [Text (str ''GetDiag'')], Size = None,
      Mean = Some [Text (str ''5us'')], Allocated = Some [Missing], Mean_us = None, Method_dtype = ObjectDtype,
      Allocated_dtype = NumericDtype\<rparr>"

text \<open>A file system with one file, at the path of the report.\<close>

definition disk :: "pystr list list \<Rightarrow> pystr \<Rightarrow> pystr list list option" where
  "disk file = (\<lambda>p. if p = report_path then Some file else None)"

text \<open>
  The rows of a table and the rows of a file, for the statement that loading keeps the
  rows and their order. A row has the cells of the four columns, \<open>None\<close> for a column
  that the header does not name.
\<close>

record row =
  row_Method :: "cell option"
  row_Size :: "int option"
  row_Mean :: "cell option"
  row_Allocated :: "cell option"

definition table_rows :: "frame \<Rightarrow> row list" where
  "table_rows t =
     map (\<lambda>i. \<lparr>row_Method = map_option (\<lambda>col. col ! i) (Method t),
                row_Size = map_option (\<lambda>col. col ! i) (Size t),
                row_Mean = map_option (\<lambda>col. col ! i) (Mean t),
                row_Allocated = map_option (\<lambda>col. col ! i) (Allocated t)\<rparr>)
       [0..<length (index t)]"

definition named_field :: "pystr list \<Rightarrow> pystr list list \<Rightarrow> pystr \<Rightarrow> pystr list \<Rightarrow> pystr option" where
  "named_field header data name r =
     map_option (\<lambda>j. field_at r (width header data - length header + j)) (find_column name header)"

definition file_row :: "converters \<Rightarrow> pystr list \<Rightarrow> pystr list list \<Rightarrow> pystr list \<Rightarrow> row" where
  "file_row conv header data r =
     \<lparr>row_Method = map_option (to_cell conv) (named_field header data (str ''Method'') r),
      row_Size = map_option (int_of conv) (named_field header data (str ''Size'') r),
      row_Mean = map_option (to_cell conv) (named_field header data (str ''Mean'') r),
      row_Allocated = map_option (to_cell conv) (named_field header data (str ''Allocated'') r)\<rparr>"

text \<open>
  Converters for the examples: the empty text is missing, a column of empty fields is
  numeric, and \<open>Size\<close> is not read. Then a file whose header has none of the required
  columns, and a file whose header only lacks \<open>Size\<close>.
\<close>

definition simple_converters :: converters where
  "simple_converters =
     \<lparr>is_na = (\<lambda>f. f = []),
      dtype_of = (\<lambda>texts. if list_all (\<lambda>f. f = []) texts then NumericDtype else ObjectDtype),
      int_of = (\<lambda>f. 0)\<rparr>"

definition file_other_columns :: "pystr list list" where
  "file_other_columns = [[str ''A'', str ''B''], [str ''1'', str ''2'']]"

definition file_without_size :: "pystr list list" where
  "file_without_size =
     [[str ''Method'', str ''Mean'', str ''Allocated''], [str ''GetDiag'', str ''5us'', []]]"












text \<open>A state whose table has none of the four columns.\<close>

definition state_other_columns :: state where
  "state_other_columns = \<lparr>df = table_other_columns, plt = \<lparr>lines = [], saved = []\<rparr>\<rparr>"

text \<open>The state after normalizing the table without method texts, with no chart yet.\<close>

definition state_method_missing :: state where
  "state_method_missing =
     \<lparr>df = table_method_missing\<lparr>Mean_us := Some [Finite 50, Finite 100]\<rparr>,
      plt = \<lparr>lines = [], saved = []\<rparr>\<rparr>"

text \<open>The state after normalizing the table that lacks \<open>Size\<close>, with no chart yet.\<close>

definition state_without_size :: state where
  "state_without_size =
     \<lparr>df = table_without_size\<lparr>Mean_us := Some [Finite 5]\<rparr>, plt = \<lparr>lines = [], saved = []\<rparr>\<rparr>"

text \<open>
  What a chart pass does to the state when it succeeds: the current figure gets the
  series \<open>ls\<close>, which are saved as one more image under \<open>name\<close>; the table stays.
\<close>

definition emit :: "pystr \<Rightarrow> series list \<Rightarrow> state \<Rightarrow> state" where
  "emit name ls st = st\<lparr>plt := (plt st)\<lparr>lines := ls, saved := saved (plt st) @ [(name, ls)]\<rparr>\<rparr>"

section \<open>Properties of the timing normalizer\<close>

text \<open>
  Claim C1. For every Mean value the function \<open>convert_to_us\<close> of the script computes
  what the specification describes: it strips surrounding whitespace, finds the unit in
  the priority order \<open>ns\<close>, \<open>us\<close> or \<open>\<mu>s\<close>, \<open>ms\<close>, none, removes the unit text and every
  \<open>,\<close>, parses the rest with \<open>float\<close> and divides by 1000, leaves unchanged, multiplies by
  1000 or leaves unchanged accordingly. The result is a float or the error of \<open>float\<close>.
\<close>

theorem convert_to_us_refines_spec:
  "convert_to_us v = normalize_spec v"
  by (cases "py_float (remaining_text (detect_unit (strip (py_str v))) (strip (py_str v)))")
     (auto simp: convert_to_us_def normalize_spec_def detect_unit_def remaining_text_def Let_def)

subsection \<open>Evaluation on concrete texts\<close>

lemmas b64_eval = b64_round_def ilog2_def bitlen_def compute_floorlog round_half_even_def
  power_int_def power_one_over

lemmas str_eval = str_def mu_s_def strip_def isspace_def startswith_def replace.simps

lemmas float_eval = py_float_def to_ascii_def ascii_space_def is_digit_def
  parse_sign_def parse_abs_def lower_def parse_decimal_def parse_exponent_def digits_value_def
  fneg_def truediv_def mul_def

lemmas convert_eval = convert_to_us_def py_str_def str_eval float_eval b64_eval

lemma convert_1000ns: "convert_to_us (Text (str ''1000ns'')) = Inr (Finite 1)"
  by (simp add: convert_eval)

lemma convert_1us: "convert_to_us (Text (str ''1us'')) = Inr (Finite 1)"
  by (simp add: convert_eval)

lemma convert_1ms: "convert_to_us (Text (str ''1ms'')) = Inr (Finite 1000)"
  by (simp add: convert_eval)

lemma convert_1234us: "convert_to_us (Text (str ''1,234us'')) = Inr (Finite 1234)"
  by (simp add: convert_eval)

lemma convert_500: "convert_to_us (Text (str ''500'')) = Inr (Finite 500)"
  by (simp add: convert_eval)

lemma convert_missing: "convert_to_us Missing = Inr NaN"
  by (simp add: convert_eval)

text \<open>
  Claim C2. The normalizer returns 1.0 on \<open>1000ns\<close> and on \<open>1us\<close>, 1000.0 on \<open>1ms\<close>,
  1234.0 on \<open>1,234us\<close> (the thousands separator is removed) and 500.0 on \<open>500\<close> (a value
  without unit is taken as microseconds).
\<close>

theorem convert_to_us_examples:
  "convert_to_us (Text (str ''1000ns'')) = Inr (Finite 1) \<and>
   convert_to_us (Text (str ''1us'')) = Inr (Finite 1) \<and>
   convert_to_us (Text (str ''1ms'')) = Inr (Finite 1000) \<and>
   convert_to_us (Text (str ''1,234us'')) = Inr (Finite 1234) \<and>
   convert_to_us (Text (str ''500'')) = Inr (Finite 500)"
  using convert_1000ns convert_1us convert_1ms convert_1234us convert_500 by blast

subsection \<open>Failure of the normalizer\<close>



















subsection \<open>The normalization pass on a missing Mean\<close>

lemma series_apply_Inr:
  "series_apply f xs = Inr ys \<Longrightarrow>
     length ys = length xs \<and> (\<forall>i<length xs. f (xs ! i) = Inr (ys ! i))"
proof (induction xs arbitrary: ys)
  case Nil
  then show ?case by simp
next
  case (Cons x xs)
  then show ?case
    by (auto split: sum.splits simp: nth_Cons split: nat.splits)
qed

lemma series_apply_Inl:
  "series_apply f xs = Inl e \<Longrightarrow> \<exists>j<length xs. f (xs ! j) = Inl e"
proof (induction xs)
  case Nil
  then show ?case by simp
next
  case (Cons x xs)
  show ?case
  proof (cases "f x")
    case (Inl a)
    with Cons.prems have "f ((x # xs) ! 0) = Inl e" by simp
    then show ?thesis by blast
  next
    case (Inr y)
    with Cons.prems have "series_apply f xs = Inl e" by (simp split: sum.splits)
    then obtain j where "j < length xs" "f (xs ! j) = Inl e" using Cons.IH by blast
    then have "Suc j < length (x # xs)" "f ((x # xs) ! Suc j) = Inl e" by simp_all
    then show ?thesis by blast
  qed
qed

text \<open>
  Claim C10. For every row whose \<open>Mean\<close> cell is missing, the normalizer does not raise:
  \<open>str\<close> gives the text \<open>nan\<close>, which \<open>float\<close> parses as NaN. So when the normalization
  pass succeeds that row has a NaN \<open>Mean_us\<close>, and when the pass fails the exception comes
  from the cell of another row.
\<close>

theorem normalize_missing_mean:
  assumes "Mean t = Some col" and "i < length col" and "col ! i = Missing"
  shows "convert_to_us (col ! i) = Inr NaN \<and>
         (case normalize_mean t of
            Inr df' \<Rightarrow> (\<exists>us. Mean_us df' = Some us \<and> length us = length col \<and> us ! i = NaN)
          | Inl e \<Rightarrow> (\<exists>j<length col. j \<noteq> i \<and> convert_to_us (col ! j) = Inl e))"
proof -
  have m: "convert_to_us (col ! i) = Inr NaN"
    using assms(3) convert_missing by simp
  have n: "normalize_mean t =
      (case series_apply convert_to_us col of Inl e \<Rightarrow> Inl e
       | Inr us \<Rightarrow> Inr (t\<lparr>Mean_us := Some us\<rparr>))"
    using assms(1) by (simp add: normalize_mean_def and_then_def getitem_def)
  show ?thesis
  proof (cases "series_apply convert_to_us col")
    case (Inl e)
    then obtain j where j: "j < length col" "convert_to_us (col ! j) = Inl e"
      using series_apply_Inl by blast
    with m have "j \<noteq> i" by auto
    with j m n Inl show ?thesis by auto
  next
    case (Inr us)
    from series_apply_Inr [OF Inr] assms(2) m
    have "length us = length col" "us ! i = NaN" by auto
    with m n Inr show ?thesis by simp
  qed
qed

theorem normalize_missing_mean_witness:
  "Mean table_missing_mean = Some [Text (str ''1us''), Missing] \<and>
   (1::nat) < length [Text (str ''1us''), Missing] \<and>
   [Text (str ''1us''), Missing] ! 1 = Missing \<and>
   convert_to_us ([Text (str ''1us''), Missing] ! 1) = Inr NaN \<and>
   (case normalize_mean table_missing_mean of
      Inr df' \<Rightarrow> (\<exists>us. Mean_us df' = Some us \<and>
                     length us = length [Text (str ''1us''), Missing] \<and> us ! 1 = NaN)
    | Inl e \<Rightarrow> (\<exists>j<length [Text (str ''1us''), Missing]. j \<noteq> 1 \<and>
                    convert_to_us ([Text (str ''1us''), Missing] ! j) = Inl e))"
  using normalize_missing_mean [of table_missing_mean "[Text (str ''1us''), Missing]" 1]
  by (simp add: table_missing_mean_def)

section \<open>Properties of the selections\<close>

lemma startswith_iff: "startswith s p \<longleftrightarrow> (\<exists>q. s = p @ q)"
proof
  assume "startswith s p"
  then have "s = p @ drop (length p) s"
    by (metis append_take_drop_id startswith_def)
  then show "\<exists>q. s = p @ q" ..
next
  assume "\<exists>q. s = p @ q"
  then show "startswith s p" by (auto simp: startswith_def)
qed

lemma contains_iff: "contains sub s \<longleftrightarrow> (\<exists>p q. s = p @ sub @ q)"
proof (induction s)
  case Nil
  then show ?case by auto
next
  case (Cons c cs)
  show ?case
  proof
    assume "contains sub (c # cs)"
    then consider "startswith (c # cs) sub" | "contains sub cs" by auto
    then show "\<exists>p q. c # cs = p @ sub @ q"
    proof cases
      case 1
      then obtain q where "c # cs = sub @ q" using startswith_iff by blast
      then have "c # cs = [] @ sub @ q" by simp
      then show ?thesis by blast
    next
      case 2
      then obtain p q where "cs = p @ sub @ q" using Cons.IH by blast
      then have "c # cs = (c # p) @ sub @ q" by simp
      then show ?thesis by blast
    qed
  next
    assume "\<exists>p q. c # cs = p @ sub @ q"
    then obtain p q where pq: "c # cs = p @ sub @ q" by blast
    show "contains sub (c # cs)"
    proof (cases p)
      case Nil
      with pq have "startswith (c # cs) sub" using startswith_iff by auto
      then show ?thesis by simp
    next
      case (Cons a p')
      with pq have "cs = p' @ sub @ q" by simp
      then have "contains sub cs" using Cons.IH by blast
      then show ?thesis by simp
    qed
  qed
qed

lemma select_map_self: "select (map P m) m = filter P m"
  by (induction m) (auto simp: select_def)

lemma select_map_zip:
  "length ix = length m \<Longrightarrow>
   select (map P m) ix = map fst (filter (\<lambda>(i, c). P c) (zip ix m))"
  by (induction ix m rule: list_induct2) (auto simp: select_def)

lemma str_contains_iff:
  "str_contains sub c \<longleftrightarrow> (\<exists>s p q. c = Text s \<and> s = p @ sub @ q)"
  by (cases c) (auto simp: str_contains_def contains_iff)

text \<open>
  Claim C5, as stated, fails: on a table whose \<open>Method\<close> cells are all missing the
  selections do not return the empty set of rows, they raise \<open>AttributeError\<close>.
\<close>

theorem substring_selections_counterexample:
  "Method table_method_missing = Some [Missing, Missing] \<and>
   fill_methods table_method_missing = Inl AttributeError \<and>
   foreach_methods table_method_missing = Inl AttributeError"
  by (simp add: table_method_missing_def fill_methods_def foreach_methods_def getitem_def
      str_accessor_def and_then_def)

text \<open>
  Claim C5, amended. When the \<open>Method\<close> column holds strings (dtype \<open>object\<close>), the Fill
  selection returns exactly the rows whose \<open>Method\<close> is a text that contains \<open>Fill\<close> as
  a substring, compared code point by code point (so case-sensitive); a row whose
  \<open>Method\<close> is missing is not among them. The ForEach selection is the same with
  \<open>ForEach\<close>. When the \<open>Method\<close> column does not hold strings, both selections raise
  \<open>AttributeError\<close>.
\<close>

theorem substring_selections:
  assumes "Method t = Some m" and "length (index t) = length m"
    and "Method_dtype t = ObjectDtype"
    and "Method u = Some mu" and "Method_dtype u = NumericDtype"
  shows "fill_methods u = Inl AttributeError \<and> foreach_methods u = Inl AttributeError \<and>
         (\<exists>sub. fill_methods t = Inr sub \<and>
            sub = mask_rows (map (\<lambda>c. \<exists>s p q. c = Text s \<and> s = p @ str ''Fill'' @ q) m) t \<and>
            index sub = map fst (filter (\<lambda>(i, c). \<exists>s p q. c = Text s \<and> s = p @ str ''Fill'' @ q)
                                  (zip (index t) m)) \<and>
            Method sub = Some (filter (\<lambda>c. \<exists>s p q. c = Text s \<and> s = p @ str ''Fill'' @ q) m)) \<and>
         (\<exists>sub. foreach_methods t = Inr sub \<and>
            sub = mask_rows (map (\<lambda>c. \<exists>s p q. c = Text s \<and> s = p @ str ''ForEach'' @ q) m) t \<and>
            index sub = map fst (filter (\<lambda>(i, c). \<exists>s p q. c = Text s \<and> s = p @ str ''ForEach'' @ q)
                                  (zip (index t) m)) \<and>
            Method sub = Some (filter (\<lambda>c. \<exists>s p q. c = Text s \<and> s = p @ str ''ForEach'' @ q) m))"
proof -
  have e: "str_contains sub = (\<lambda>c. \<exists>s p q. c = Text s \<and> s = p @ sub @ q)" for sub
    by (rule ext) (rule str_contains_iff)
  show ?thesis
    using assms
    by (simp add: fill_methods_def foreach_methods_def and_then_def getitem_def str_accessor_def e
        mask_rows_def select_map_self select_map_zip)
qed

theorem substring_selections_witness:
  "Method table_methods = Some methods_column \<and>
   length (index table_methods) = length methods_column \<and>
   Method_dtype table_methods = ObjectDtype \<and>
   Method table_method_missing = Some [Missing, Missing] \<and>
   Method_dtype table_method_missing = NumericDtype \<and>
   fill_methods table_method_missing = Inl AttributeError \<and>
   foreach_methods table_method_missing = Inl AttributeError \<and>
   (\<exists>sub. fill_methods table_methods = Inr sub \<and>
      sub = mask_rows (map (\<lambda>c. \<exists>s p q. c = Text s \<and> s = p @ str ''Fill'' @ q) methods_column) table_methods \<and>
      index sub = map fst (filter (\<lambda>(i, c). \<exists>s p q. c = Text s \<and> s = p @ str ''Fill'' @ q) (zip (index table_methods) methods_column)) \<and>
      Method sub = Some (filter (\<lambda>c. \<exists>s p q. c = Text s \<and> s = p @ str ''Fill'' @ q) methods_column)) \<and>
   (\<exists>sub. foreach_methods table_methods = Inr sub \<and>
      sub = mask_rows (map (\<lambda>c. \<exists>s p q. c = Text s \<and> s = p @ str ''ForEach'' @ q) methods_column) table_methods \<and>
      index sub = map fst (filter (\<lambda>(i, c). \<exists>s p q. c = Text s \<and> s = p @ str ''ForEach'' @ q) (zip (index table_methods) methods_column)) \<and>
      Method sub = Some (filter (\<lambda>c. \<exists>s p q. c = Text s \<and> s = p @ str ''ForEach'' @ q) methods_column))"
proof -
  have h1: "Method table_methods = Some methods_column"
    by (simp add: table_methods_def)
  have h2: "length (index table_methods) = length methods_column"
    by (simp add: table_methods_def methods_column_def)
  have h3: "Method_dtype table_methods = ObjectDtype"
    by (simp add: table_methods_def)
  have h4: "Method table_method_missing = Some [Missing, Missing]"
    by (simp add: table_method_missing_def)
  have h5: "Method_dtype table_method_missing = NumericDtype"
    by (simp add: table_method_missing_def)
  from substring_selections [OF h1 h2 h3 h4 h5] h1 h2 h3 h4 h5 show ?thesis by blast
qed

text \<open>
  Claim C4. The read-operations selection returns exactly the rows whose \<open>Method\<close> is
  the text \<open>GetRow\<close> or the text \<open>GetColumn\<close>; no row with \<open>Method\<close> \<open>GetRowFast\<close> is
  among them.
\<close>

theorem read_selection:
  assumes "Method t = Some m" and "length (index t) = length m"
  shows "\<exists>sub rows. read_methods t = Inr sub \<and>
            sub = mask_rows (map (\<lambda>c. c = Text (str ''GetRow'') \<or> c = Text (str ''GetColumn'')) m) t \<and>
            index sub = map fst (filter (\<lambda>(i, c). c = Text (str ''GetRow'') \<or> c = Text (str ''GetColumn''))
                                  (zip (index t) m)) \<and>
            Method sub = Some rows \<and>
            rows = filter (\<lambda>c. c = Text (str ''GetRow'') \<or> c = Text (str ''GetColumn'')) m \<and>
            Text (str ''GetRowFast'') \<notin> set rows"
proof -
  have e: "isin [str ''GetRow'', str ''GetColumn''] =
           (\<lambda>c. c = Text (str ''GetRow'') \<or> c = Text (str ''GetColumn''))"
    by (rule ext) (auto simp: isin_def split: cell.splits)
  have n: "str ''GetRowFast'' \<noteq> str ''GetRow''" "str ''GetRowFast'' \<noteq> str ''GetColumn''"
    by (simp_all add: str_def)
  show ?thesis
    using assms n
    by (simp add: read_methods_def and_then_def getitem_def e
        mask_rows_def select_map_self select_map_zip)
qed

theorem read_selection_witness:
  "Method table_methods = Some methods_column \<and>
   length (index table_methods) = length methods_column \<and>
   (\<exists>sub rows. read_methods table_methods = Inr sub \<and>
      sub = mask_rows (map (\<lambda>c. c = Text (str ''GetRow'') \<or> c = Text (str ''GetColumn'')) methods_column) table_methods \<and>
      index sub = map fst (filter (\<lambda>(i, c). c = Text (str ''GetRow'') \<or> c = Text (str ''GetColumn'')) (zip (index table_methods) methods_column)) \<and>
      Method sub = Some rows \<and>
      rows = filter (\<lambda>c. c = Text (str ''GetRow'') \<or> c = Text (str ''GetColumn'')) methods_column \<and>
      Text (str ''GetRowFast'') \<notin> set rows)"
proof -
  have h1: "Method table_methods = Some methods_column"
    by (simp add: table_methods_def)
  have h2: "length (index table_methods) = length methods_column"
    by (simp add: table_methods_def methods_column_def)
  from read_selection [OF h1 h2] h1 h2 show ?thesis by blast
qed

text \<open>On the example table the selections keep the first row and the fifth row.\<close>

lemma table_methods_fill:
  "fill_methods table_methods =
     Inr (mask_rows [True, False, False, False, False, False] table_methods)"
  by (simp add: fill_methods_def table_methods_def methods_column_def and_then_def getitem_def
      str_accessor_def str_contains_def str_def startswith_def)

lemma table_methods_read:
  "read_methods table_methods =
     Inr (mask_rows [False, False, False, False, True, False] table_methods)"
  by (simp add: read_methods_def table_methods_def methods_column_def and_then_def getitem_def
      isin_def str_def)

section \<open>Lemmas about the table operations\<close>

lemma and_then_Inr: "and_then (Inr x) f = f x"
  by (simp add: and_then_def)

lemma and_then_Inl: "and_then (Inl e) f = Inl e"
  by (simp add: and_then_def)

lemmas getitem_eval = getitem_def str_accessor_def and_then_Inr and_then_Inl

lemma convert_5us: "convert_to_us (Text (str ''5us'')) = Inr (Finite 5)"
  by (simp add: convert_eval)

lemma normalize_without_size:
  "normalize_mean table_without_size = Inr (table_without_size\<lparr>Mean_us := Some [Finite 5]\<rparr>)"
  by (simp add: normalize_mean_def table_without_size_def getitem_eval convert_5us)

lemmas frame_eval = getitem_eval mask_rows_def select_def str_contains_def isin_def
  notna_def eq_cell_def figure_def savefig_def plot_def empty_def

lemma no_fill_in_GetDiag: "contains (str ''Fill'') (str ''GetDiag'') = False"
  by (simp add: str_def startswith_def)

lemma no_foreach_in_GetDiag: "contains (str ''ForEach'') (str ''GetDiag'') = False"
  by (simp add: str_def startswith_def)

lemma GetDiag_not_read: "str ''GetDiag'' \<noteq> str ''GetRow''" "str ''GetDiag'' \<noteq> str ''GetColumn''"
  by (simp_all add: str_def)

lemma filter_zip_empty:
  "filter P m = [] \<Longrightarrow> filter (\<lambda>(i, c). P c) (zip ix m) = []"
  by (auto simp: filter_empty_conv dest: set_zip_rightD)




lemma plot_allocated_skip:
  assumes "Method ad = Some m" and "length (index ad) = length m"
    and "filter (eq_cell method) m = []"
  shows "plot_allocated ad method p = Inr p"
proof -
  have "select (map (eq_cell method) m) (index ad) = []"
    using assms(2,3) by (simp add: select_map_zip filter_zip_empty)
  then show ?thesis
    using assms(1) by (simp add: plot_allocated_def getitem_eval Let_def empty_def mask_rows_def)
qed

section \<open>Charts without series\<close>

lemma set_unique: "set (unique xs) = set xs"
  by (induction xs rule: unique.induct) auto

lemma for_each_skip:
  "(\<And>m. m \<in> set ms \<Longrightarrow> body m p = Inr p) \<Longrightarrow> for_each body ms p = Inr p"
  by (induction ms) (auto simp: and_then_Inr)

lemma length_select:
  "length xs = length ys \<Longrightarrow> length (select keep xs) = length (select keep ys)"
proof (induction keep arbitrary: xs ys)
  case Nil
  then show ?case by (simp add: select_def)
next
  case (Cons k keep)
  from Cons.prems show ?case
  proof (cases xs)
    case Nil
    with Cons.prems show ?thesis by (simp add: select_def)
  next
    case (Cons x xs')
    with Cons.prems obtain y ys' where ys: "ys = y # ys'" "length xs' = length ys'"
      by (cases ys) auto
    from Cons.IH [OF ys(2)] Cons ys(1) show ?thesis by (simp add: select_def)
  qed
qed

lemma graph1_empty:
  assumes "Method (df st) = Some m" and "filter (str_contains (str ''Fill'')) m = []"
    and "Method_dtype (df st) = ObjectDtype"
  shows "graph1 st = Inr (st\<lparr>plt := (plt st)\<lparr>lines := [],
            saved := saved (plt st) @ [(str ''fill_comparison.png'', [])]\<rparr>\<rparr>)"
  using assms
  by (simp add: graph1_def fill_methods_def getitem_eval mask_rows_def select_map_self
      figure_def savefig_def)

lemma graph2_empty:
  assumes "Method (df st) = Some m" and "filter (str_contains (str ''ForEach'')) m = []"
    and "Method_dtype (df st) = ObjectDtype"
  shows "graph2 st = Inr (st\<lparr>plt := (plt st)\<lparr>lines := [],
            saved := saved (plt st) @ [(str ''foreach_comparison.png'', [])]\<rparr>\<rparr>)"
  using assms
  by (simp add: graph2_def foreach_methods_def getitem_eval mask_rows_def select_map_self
      figure_def savefig_def)

lemma graph3_empty:
  assumes "Method (df st) = Some m"
    and "filter (isin [str ''GetRow'', str ''GetColumn'']) m = []"
  shows "graph3 st = Inr (st\<lparr>plt := (plt st)\<lparr>lines := [],
            saved := saved (plt st) @ [(str ''read_operations.png'', [])]\<rparr>\<rparr>)"
  using assms
  by (simp add: graph3_def read_methods_def getitem_eval mask_rows_def select_map_self
      figure_def savefig_def)

lemma graph4_empty:
  assumes m: "Method (df st) = Some m" and a: "Allocated (df st) = Some a"
    and lm: "length (index (df st)) = length m" and la: "length a = length m"
    and none: "filter (\<lambda>(c, al). str_contains (str ''Fill'') c \<and> notna al) (zip m a) = []"
    and dt: "Method_dtype (df st) = ObjectDtype"
  shows "graph4 st = Inr (st\<lparr>plt := (plt st)\<lparr>lines := [],
            saved := saved (plt st) @ [(str ''memory_allocation.png'', [])]\<rparr>\<rparr>)"
proof -
  let ?ad = "mask_rows (map notna a) (df st)"
  let ?sub = "mask_rows (map (str_contains (str ''Fill'')) m) (df st)"
  have ad: "allocated_data (df st) = Inr ?ad"
    using a by (simp add: allocated_data_def getitem_eval)
  have sub: "fill_methods (df st) = Inr ?sub"
    using m dt by (simp add: fill_methods_def getitem_eval)
  have msub: "Method ?sub = Some (filter (str_contains (str ''Fill'')) m)"
    using m by (simp add: mask_rows_def select_map_self)
  have mad: "Method ?ad = Some (select (map notna a) m)"
    using m by (simp add: mask_rows_def)
  have lad: "length (index ?ad) = length (select (map notna a) m)"
    using length_select [OF lm, of "map notna a"] by (simp add: mask_rows_def)
  have sel: "select (map notna a) m = map fst (filter (\<lambda>(c, al). notna al) (zip m a))"
    using la by (simp add: select_map_zip)
  have skip: "plot_allocated ?ad meth p = Inr p"
    if "meth \<in> set (unique (filter (str_contains (str ''Fill'')) m))" for meth p
  proof -
    from that have fill: "str_contains (str ''Fill'') meth"
      by (simp add: set_unique)
    have "filter (eq_cell meth) (select (map notna a) m) = []"
    proof (rule ccontr)
      assume "filter (eq_cell meth) (select (map notna a) m) \<noteq> []"
      then obtain c where c: "c \<in> set (select (map notna a) m)" "eq_cell meth c"
        unfolding filter_empty_conv by blast
      from c(2) have "c = meth" by (auto simp: eq_cell_def split: cell.splits)
      moreover from c(1) obtain al where "(c, al) \<in> set (zip m a)" "notna al"
        unfolding sel by auto
      ultimately have "(meth, al) \<in> set (filter (\<lambda>(c, al). str_contains (str ''Fill'') c \<and> notna al) (zip m a))"
        using fill by simp
      with none show False by simp
    qed
    with mad lad show ?thesis by (rule plot_allocated_skip)
  qed
  have loop: "for_each (plot_allocated ?ad) (unique (filter (str_contains (str ''Fill'')) m)) p
                = Inr p" for p
    by (rule for_each_skip) (rule skip)
  have "graph4 st = Inr (st\<lparr>plt := savefig (str ''memory_allocation.png'') (figure (plt st))\<rparr>)"
    unfolding graph4_def ad sub and_then_Inr msub getitem_def option.case loop ..
  then show ?thesis
    by (simp add: figure_def savefig_def)
qed

text \<open>
  Claim C8, as stated, fails: in the table whose \<open>Method\<close> cells are all missing no row
  matches the filter of the Fill chart, of the ForEach chart or of the memory chart, and
  each of these passes ends with \<open>AttributeError\<close>.
\<close>

theorem empty_selection_counterexample:
  "Method (df state_method_missing) = Some [Missing, Missing] \<and>
   Allocated (df state_method_missing) = Some [Text (str ''1,024 B''), Text (str ''2,048 B'')] \<and>
   filter (str_contains (str ''Fill'')) [Missing, Missing] = [] \<and>
   filter (str_contains (str ''ForEach'')) [Missing, Missing] = [] \<and>
   filter (\<lambda>(c, al). str_contains (str ''Fill'') c \<and> notna al)
     (zip [Missing, Missing] [Text (str ''1,024 B''), Text (str ''2,048 B'')]) = [] \<and>
   graph1 state_method_missing = Inl AttributeError \<and>
   graph2 state_method_missing = Inl AttributeError \<and>
   graph4 state_method_missing = Inl AttributeError"
  by (simp add: state_method_missing_def table_method_missing_def graph1_def graph2_def
      graph4_def fill_methods_def foreach_methods_def allocated_data_def getitem_eval
      str_contains_def)

text \<open>
  Claim C8, amended. For every loaded table that has the \<open>Method\<close> column, holding
  strings for the passes that search it for a substring, and for the memory chart also
  the \<open>Allocated\<close> column: each of the four chart passes, applied to a table in which no
  row matches the filter of the pass, succeeds and saves a chart with no series. For the
  three timing charts the filter is the selection on \<open>Method\<close>; for the memory chart it
  is a Fill method together with a present \<open>Allocated\<close>.
\<close>

theorem empty_selection_no_series:
  "(Method (df st) = Some m \<and> Method_dtype (df st) = ObjectDtype \<and>
    filter (str_contains (str ''Fill'')) m = [] \<longrightarrow>
      graph1 st = Inr (st\<lparr>plt := (plt st)\<lparr>lines := [],
        saved := saved (plt st) @ [(str ''fill_comparison.png'', [])]\<rparr>\<rparr>)) \<and>
   (Method (df st) = Some m \<and> Method_dtype (df st) = ObjectDtype \<and>
    filter (str_contains (str ''ForEach'')) m = [] \<longrightarrow>
      graph2 st = Inr (st\<lparr>plt := (plt st)\<lparr>lines := [],
        saved := saved (plt st) @ [(str ''foreach_comparison.png'', [])]\<rparr>\<rparr>)) \<and>
   (Method (df st) = Some m \<and> filter (isin [str ''GetRow'', str ''GetColumn'']) m = [] \<longrightarrow>
      graph3 st = Inr (st\<lparr>plt := (plt st)\<lparr>lines := [],
        saved := saved (plt st) @ [(str ''read_operations.png'', [])]\<rparr>\<rparr>)) \<and>
   (Method (df st) = Some m \<and> Method_dtype (df st) = ObjectDtype \<and>
    Allocated (df st) = Some a \<and>
    length (index (df st)) = length m \<and> length a = length m \<and>
    filter (\<lambda>(c, al). str_contains (str ''Fill'') c \<and> notna al) (zip m a) = [] \<longrightarrow>
      graph4 st = Inr (st\<lparr>plt := (plt st)\<lparr>lines := [],
        saved := saved (plt st) @ [(str ''memory_allocation.png'', [])]\<rparr>\<rparr>))"
  using graph1_empty [of st m] graph2_empty [of st m] graph3_empty [of st m]
    graph4_empty [of st m a]
  by blast

theorem empty_selection_no_series_witness:
  "Method (df state_without_size) = Some [Text (str ''GetDiag'')] \<and>
   Method_dtype (df state_without_size) = ObjectDtype \<and>
   Allocated (df state_without_size) = Some [Missing] \<and>
   length (index (df state_without_size)) = length [Text (str ''GetDiag'')] \<and>
   length [Missing] = length [Text (str ''GetDiag'')] \<and>
   filter (str_contains (str ''Fill'')) [Text (str ''GetDiag'')] = [] \<and>
   filter (str_contains (str ''ForEach'')) [Text (str ''GetDiag'')] = [] \<and>
   filter (isin [str ''GetRow'', str ''GetColumn'']) [Text (str ''GetDiag'')] = [] \<and>
   filter (\<lambda>(c, al). str_contains (str ''Fill'') c \<and> notna al)
     (zip [Text (str ''GetDiag'')] [Missing]) = [] \<and>
   graph1 state_without_size = Inr (state_without_size\<lparr>plt := (plt state_without_size)\<lparr>lines := [],
        saved := saved (plt state_without_size) @ [(str ''fill_comparison.png'', [])]\<rparr>\<rparr>) \<and>
   graph2 state_without_size = Inr (state_without_size\<lparr>plt := (plt state_without_size)\<lparr>lines := [],
        saved := saved (plt state_without_size) @ [(str ''foreach_comparison.png'', [])]\<rparr>\<rparr>) \<and>
   graph3 state_without_size = Inr (state_without_size\<lparr>plt := (plt state_without_size)\<lparr>lines := [],
        saved := saved (plt state_without_size) @ [(str ''read_operations.png'', [])]\<rparr>\<rparr>) \<and>
   graph4 state_without_size = Inr (state_without_size\<lparr>plt := (plt state_without_size)\<lparr>lines := [],
        saved := saved (plt state_without_size) @ [(str ''memory_allocation.png'', [])]\<rparr>\<rparr>)"
proof -
  have h1: "Method (df state_without_size) = Some [Text (str ''GetDiag'')]"
    by (simp add: state_without_size_def table_without_size_def)
  have h0: "Method_dtype (df state_without_size) = ObjectDtype"
    by (simp add: state_without_size_def table_without_size_def)
  have h2: "Allocated (df state_without_size) = Some [Missing]"
    by (simp add: state_without_size_def table_without_size_def)
  have h3: "length (index (df state_without_size)) = length [Text (str ''GetDiag'')]"
    by (simp add: state_without_size_def table_without_size_def)
  have h4: "length [Missing] = length [Text (str ''GetDiag'')]"
    by simp
  have h5: "filter (str_contains (str ''Fill'')) [Text (str ''GetDiag'')] = []"
    by (simp add: str_contains_def no_fill_in_GetDiag)
  have h6: "filter (str_contains (str ''ForEach'')) [Text (str ''GetDiag'')] = []"
    by (simp add: str_contains_def no_foreach_in_GetDiag)
  have h7: "filter (isin [str ''GetRow'', str ''GetColumn'']) [Text (str ''GetDiag'')] = []"
    by (simp add: isin_def GetDiag_not_read)
  have h8: "filter (\<lambda>(c, al). str_contains (str ''Fill'') c \<and> notna al)
     (zip [Text (str ''GetDiag'')] [Missing]) = []"
    by (simp add: notna_def)
  from empty_selection_no_series [of state_without_size "[Text (str ''GetDiag'')]" "[Missing]"]
    h0 h1 h2 h3 h4 h5 h6 h7 h8
  show ?thesis by blast
qed

section \<open>The passes do not change the table\<close>

lemma for_each_appends:
  fixes body :: "'a \<Rightarrow> pyplot \<Rightarrow> error + pyplot"
  assumes "\<And>m. \<exists>r. \<forall>p. body m p = and_then r (\<lambda>out. Inr (p\<lparr>lines := lines p @ out\<rparr>))"
  shows "\<exists>r. \<forall>p. for_each body ms p = and_then r (\<lambda>out. Inr (p\<lparr>lines := lines p @ out\<rparr>))"
proof (induction ms)
  case Nil
  have "\<forall>p. for_each body [] p = and_then (Inr []) (\<lambda>out. Inr (p\<lparr>lines := lines p @ out\<rparr>))"
    by (simp add: and_then_Inr)
  then show ?case by blast
next
  case (Cons m ms)
  from assms obtain rm where rm:
    "\<And>p. body m p = and_then rm (\<lambda>out. Inr (p\<lparr>lines := lines p @ out\<rparr>))"
    by blast
  from Cons.IH obtain rs where rs:
    "\<And>p. for_each body ms p = and_then rs (\<lambda>out. Inr (p\<lparr>lines := lines p @ out\<rparr>))"
    by blast
  show ?case
  proof (cases rm)
    case (Inl e)
    have "\<forall>p. for_each body (m # ms) p =
            and_then (Inl e) (\<lambda>out. Inr (p\<lparr>lines := lines p @ out\<rparr>))"
      by (simp add: rm Inl and_then_Inl)
    then show ?thesis by blast
  next
    case out: (Inr out1)
    show ?thesis
    proof (cases rs)
      case (Inl e)
      have "\<forall>p. for_each body (m # ms) p =
              and_then (Inl e) (\<lambda>out. Inr (p\<lparr>lines := lines p @ out\<rparr>))"
        by (simp add: rm rs out Inl and_then_Inl and_then_Inr)
      then show ?thesis by blast
    next
      case (Inr out2)
      have "\<forall>p. for_each body (m # ms) p =
              and_then (Inr (out1 @ out2)) (\<lambda>out. Inr (p\<lparr>lines := lines p @ out\<rparr>))"
        by (simp add: rm rs out Inr and_then_Inr)
      then show ?thesis by blast
    qed
  qed
qed

lemma plot_timing_appends:
  "\<exists>r. \<forall>p. plot_timing sub method p = and_then r (\<lambda>out. Inr (p\<lparr>lines := lines p @ out\<rparr>))"
proof -
  let ?r = "and_then (getitem (str ''Method'') (Method sub)) (\<lambda>m.
     let data = mask_rows (map (eq_cell method) m) sub in
     and_then (getitem (str ''Size'') (Size data)) (\<lambda>x.
     and_then (getitem (str ''Mean_us'') (Mean_us data)) (\<lambda>y.
     Inr [\<lparr>label = method, xdata = x, ydata = y\<rparr>])))"
  have "\<forall>p. plot_timing sub method p = and_then ?r (\<lambda>out. Inr (p\<lparr>lines := lines p @ out\<rparr>))"
    by (simp add: plot_timing_def plot_def and_then_def Let_def split: sum.splits)
  then show ?thesis by blast
qed

lemma plot_allocated_appends:
  "\<exists>r. \<forall>p. plot_allocated ad method p = and_then r (\<lambda>out. Inr (p\<lparr>lines := lines p @ out\<rparr>))"
proof -
  let ?r = "and_then (getitem (str ''Method'') (Method ad)) (\<lambda>m.
     let data = mask_rows (map (eq_cell method) m) ad in
     if empty data then Inr []
     else and_then (getitem (str ''Allocated'') (Allocated data)) (\<lambda>a.
          and_then (allocated_kb (Allocated_dtype data) a) (\<lambda>kb.
          and_then (getitem (str ''Size'') (Size data)) (\<lambda>x.
          Inr [\<lparr>label = method, xdata = x, ydata = kb\<rparr>]))))"
  have "\<forall>p. plot_allocated ad method p = and_then ?r (\<lambda>out. Inr (p\<lparr>lines := lines p @ out\<rparr>))"
    by (simp add: plot_allocated_def plot_def and_then_def Let_def split: sum.splits)
  then show ?thesis by blast
qed

lemma pass_shape:
  fixes body :: "frame \<Rightarrow> cell \<Rightarrow> pyplot \<Rightarrow> error + pyplot"
  assumes "\<And>sub m. \<exists>r. \<forall>p. body sub m p = and_then r (\<lambda>out. Inr (p\<lparr>lines := lines p @ out\<rparr>))"
  shows "\<exists>r. \<forall>st. df st = t \<longrightarrow>
           and_then (prep (df st)) (\<lambda>(sub, ms).
             and_then (for_each (body sub) ms (figure (plt st))) (\<lambda>p.
             Inr (st\<lparr>plt := savefig name p\<rparr>)))
           = and_then r (\<lambda>ls. Inr (emit name ls st))"
proof (cases "prep t")
  case (Inl e)
  then have "\<forall>st. df st = t \<longrightarrow>
           and_then (prep (df st)) (\<lambda>(sub, ms).
             and_then (for_each (body sub) ms (figure (plt st))) (\<lambda>p.
             Inr (st\<lparr>plt := savefig name p\<rparr>)))
           = and_then (Inl e) (\<lambda>ls. Inr (emit name ls st))"
    by (simp add: and_then_Inl)
  then show ?thesis by blast
next
  case (Inr a)
  obtain sub ms where a: "a = (sub, ms)" by (cases a)
  from for_each_appends [of "body sub" ms, OF assms] obtain r where r:
    "\<And>p. for_each (body sub) ms p = and_then r (\<lambda>out. Inr (p\<lparr>lines := lines p @ out\<rparr>))"
    by blast
  have "\<forall>st. df st = t \<longrightarrow>
           and_then (prep (df st)) (\<lambda>(sub, ms).
             and_then (for_each (body sub) ms (figure (plt st))) (\<lambda>p.
             Inr (st\<lparr>plt := savefig name p\<rparr>)))
           = and_then r (\<lambda>ls. Inr (emit name ls st))"
    by (cases r) (simp_all add: Inr a and_then_Inr and_then_Inl r figure_def savefig_def emit_def)
  then show ?thesis by blast
qed

lemma graph1_pass:
  "\<exists>r. \<forall>st. df st = t \<longrightarrow> graph1 st = and_then r (\<lambda>ls. Inr (emit (str ''fill_comparison.png'') ls st))"
proof -
  have form: "graph1 st =
      and_then ((\<lambda>t. and_then (fill_methods t) (\<lambda>sub.
          and_then (getitem (str ''Method'') (Method sub)) (\<lambda>m. Inr (sub, unique m)))) (df st)) (\<lambda>(sub, ms).
        and_then (for_each (plot_timing sub) ms (figure (plt st))) (\<lambda>p.
        Inr (st\<lparr>plt := savefig (str ''fill_comparison.png'') p\<rparr>)))" for st
    by (simp add: graph1_def and_then_def split: sum.splits)
  have "\<exists>r. \<forall>st. df st = t \<longrightarrow>
      and_then ((\<lambda>t. and_then (fill_methods t) (\<lambda>sub.
          and_then (getitem (str ''Method'') (Method sub)) (\<lambda>m. Inr (sub, unique m)))) (df st)) (\<lambda>(sub, ms).
        and_then (for_each (plot_timing sub) ms (figure (plt st))) (\<lambda>p.
        Inr (st\<lparr>plt := savefig (str ''fill_comparison.png'') p\<rparr>)))
      = and_then r (\<lambda>ls. Inr (emit (str ''fill_comparison.png'') ls st))"
    by (rule pass_shape [where body = plot_timing, OF plot_timing_appends])
  then show ?thesis unfolding form .
qed

lemma graph2_pass:
  "\<exists>r. \<forall>st. df st = t \<longrightarrow> graph2 st = and_then r (\<lambda>ls. Inr (emit (str ''foreach_comparison.png'') ls st))"
proof -
  have form: "graph2 st =
      and_then ((\<lambda>t. and_then (foreach_methods t) (\<lambda>sub.
          and_then (getitem (str ''Method'') (Method sub)) (\<lambda>m. Inr (sub, unique m)))) (df st)) (\<lambda>(sub, ms).
        and_then (for_each (plot_timing sub) ms (figure (plt st))) (\<lambda>p.
        Inr (st\<lparr>plt := savefig (str ''foreach_comparison.png'') p\<rparr>)))" for st
    by (simp add: graph2_def and_then_def split: sum.splits)
  have "\<exists>r. \<forall>st. df st = t \<longrightarrow>
      and_then ((\<lambda>t. and_then (foreach_methods t) (\<lambda>sub.
          and_then (getitem (str ''Method'') (Method sub)) (\<lambda>m. Inr (sub, unique m)))) (df st)) (\<lambda>(sub, ms).
        and_then (for_each (plot_timing sub) ms (figure (plt st))) (\<lambda>p.
        Inr (st\<lparr>plt := savefig (str ''foreach_comparison.png'') p\<rparr>)))
      = and_then r (\<lambda>ls. Inr (emit (str ''foreach_comparison.png'') ls st))"
    by (rule pass_shape [where body = plot_timing, OF plot_timing_appends])
  then show ?thesis unfolding form .
qed

lemma graph3_pass:
  "\<exists>r. \<forall>st. df st = t \<longrightarrow> graph3 st = and_then r (\<lambda>ls. Inr (emit (str ''read_operations.png'') ls st))"
proof -
  have form: "graph3 st =
      and_then ((\<lambda>t. and_then (read_methods t) (\<lambda>sub.
          and_then (getitem (str ''Method'') (Method sub)) (\<lambda>m. Inr (sub, unique m)))) (df st)) (\<lambda>(sub, ms).
        and_then (for_each (plot_timing sub) ms (figure (plt st))) (\<lambda>p.
        Inr (st\<lparr>plt := savefig (str ''read_operations.png'') p\<rparr>)))" for st
    by (simp add: graph3_def and_then_def split: sum.splits)
  have "\<exists>r. \<forall>st. df st = t \<longrightarrow>
      and_then ((\<lambda>t. and_then (read_methods t) (\<lambda>sub.
          and_then (getitem (str ''Method'') (Method sub)) (\<lambda>m. Inr (sub, unique m)))) (df st)) (\<lambda>(sub, ms).
        and_then (for_each (plot_timing sub) ms (figure (plt st))) (\<lambda>p.
        Inr (st\<lparr>plt := savefig (str ''read_operations.png'') p\<rparr>)))
      = and_then r (\<lambda>ls. Inr (emit (str ''read_operations.png'') ls st))"
    by (rule pass_shape [where body = plot_timing, OF plot_timing_appends])
  then show ?thesis unfolding form .
qed

lemma graph4_pass:
  "\<exists>r. \<forall>st. df st = t \<longrightarrow> graph4 st = and_then r (\<lambda>ls. Inr (emit (str ''memory_allocation.png'') ls st))"
proof -
  have form: "graph4 st =
      and_then ((\<lambda>t. and_then (allocated_data t) (\<lambda>allocated. and_then (fill_methods t) (\<lambda>sub.
          and_then (getitem (str ''Method'') (Method sub)) (\<lambda>m. Inr (allocated, unique m))))) (df st)) (\<lambda>(sub, ms).
        and_then (for_each (plot_allocated sub) ms (figure (plt st))) (\<lambda>p.
        Inr (st\<lparr>plt := savefig (str ''memory_allocation.png'') p\<rparr>)))" for st
    by (simp add: graph4_def and_then_def split: sum.splits)
  have "\<exists>r. \<forall>st. df st = t \<longrightarrow>
      and_then ((\<lambda>t. and_then (allocated_data t) (\<lambda>allocated. and_then (fill_methods t) (\<lambda>sub.
          and_then (getitem (str ''Method'') (Method sub)) (\<lambda>m. Inr (allocated, unique m))))) (df st)) (\<lambda>(sub, ms).
        and_then (for_each (plot_allocated sub) ms (figure (plt st))) (\<lambda>p.
        Inr (st\<lparr>plt := savefig (str ''memory_allocation.png'') p\<rparr>)))
      = and_then r (\<lambda>ls. Inr (emit (str ''memory_allocation.png'') ls st))"
    by (rule pass_shape [where body = plot_allocated, OF plot_allocated_appends])
  then show ?thesis unfolding form .
qed

lemma pass_of_list:
  assumes "g \<in> set [graph1, graph2, graph3, graph4]"
  shows "\<exists>n. \<forall>t. \<exists>r. \<forall>st. df st = t \<longrightarrow> g st = and_then r (\<lambda>ls. Inr (emit n ls st))"
proof -
  from assms consider "g = graph1" | "g = graph2" | "g = graph3" | "g = graph4"
    by auto
  then show ?thesis
  proof cases
    case 1
    with graph1_pass show ?thesis by blast
  next
    case 2
    with graph2_pass show ?thesis by blast
  next
    case 3
    with graph3_pass show ?thesis by blast
  next
    case 4
    with graph4_pass show ?thesis by blast
  qed
qed

lemma df_emit: "df (emit n ls st) = df st"
  by (simp add: emit_def)

lemma saved_emit: "saved (plt (emit n ls st)) = saved (plt st) @ [(n, ls)]"
  by (simp add: emit_def)

lemma pass_result:
  assumes "\<forall>t. \<exists>r. \<forall>st. df st = t \<longrightarrow> g st = and_then r (\<lambda>ls. Inr (emit n ls st))"
    and "g st = Inr s"
  shows "\<exists>ls. s = emit n ls st \<and> (\<forall>st'. df st' = df st \<longrightarrow> g st' = Inr (emit n ls st'))"
proof -
  from assms(1) obtain r where r:
    "\<And>st'. df st' = df st \<Longrightarrow> g st' = and_then r (\<lambda>ls. Inr (emit n ls st'))"
    by blast
  from r [of st] assms(2) obtain ls where "r = Inr ls"
    by (cases r) (simp_all add: and_then_Inl)
  with r assms(2) show ?thesis by (auto simp: and_then_Inr)
qed

lemma pass_outcome:
  assumes "\<forall>t. \<exists>r. \<forall>st. df st = t \<longrightarrow> g st = and_then r (\<lambda>ls. Inr (emit n ls st))"
    and "df u' = df u"
  shows "map_sum id (\<lambda>s. (df s, last (saved (plt s)))) (g u') =
         map_sum id (\<lambda>s. (df s, last (saved (plt s)))) (g u)"
proof -
  from assms(1) obtain r where r:
    "\<And>st'. df st' = df u \<Longrightarrow> g st' = and_then r (\<lambda>ls. Inr (emit n ls st'))"
    by blast
  from r [of u] r [of u'] assms(2) show ?thesis
    by (cases r) (simp_all add: and_then_Inl and_then_Inr df_emit saved_emit)
qed

lemma graph1_state_without_size:
  "graph1 state_without_size = Inr (emit (str ''fill_comparison.png'') [] state_without_size)"
proof -
  have "Method (df state_without_size) = Some [Text (str ''GetDiag'')]"
    by (simp add: state_without_size_def table_without_size_def)
  moreover have "filter (str_contains (str ''Fill'')) [Text (str ''GetDiag'')] = []"
    by (simp add: str_contains_def no_fill_in_GetDiag)
  moreover have "Method_dtype (df state_without_size) = ObjectDtype"
    by (simp add: state_without_size_def table_without_size_def)
  ultimately show ?thesis
    unfolding emit_def by (rule graph1_empty)
qed

lemma graph4_after_graph1:
  "graph4 (emit (str ''fill_comparison.png'') [] state_without_size) =
     Inr (emit (str ''memory_allocation.png'') []
            (emit (str ''fill_comparison.png'') [] state_without_size))"
proof -
  let ?s = "emit (str ''fill_comparison.png'') [] state_without_size"
  have "Method (df ?s) = Some [Text (str ''GetDiag'')]"
    by (simp add: df_emit state_without_size_def table_without_size_def)
  moreover have "Allocated (df ?s) = Some [Missing]"
    by (simp add: df_emit state_without_size_def table_without_size_def)
  moreover have "length (index (df ?s)) = length [Text (str ''GetDiag'')]"
    by (simp add: df_emit state_without_size_def table_without_size_def)
  moreover have "length [Missing] = length [Text (str ''GetDiag'')]"
    by simp
  moreover have "filter (\<lambda>(c, al). str_contains (str ''Fill'') c \<and> notna al)
     (zip [Text (str ''GetDiag'')] [Missing]) = []"
    by (simp add: notna_def)
  moreover have "Method_dtype (df ?s) = ObjectDtype"
    by (simp add: df_emit state_without_size_def table_without_size_def)
  ultimately show ?thesis
    unfolding emit_def [of "str ''memory_allocation.png''"] by (rule graph4_empty)
qed

text \<open>
  Claim C9. After the normalization pass the table is read-only. A chart pass that
  succeeds leaves the table as it was, with its columns and its row order. Two passes
  that succeed in one order succeed in the other order, with the same table and the same
  saved images. And the outcome of a pass, the exception or the table and the image it
  saves, is the same from any two states with the same table, so it does not depend on
  which passes ran before.
\<close>

theorem passes_are_independent:
  assumes "g \<in> set [graph1, graph2, graph3, graph4]"
    and "h \<in> set [graph1, graph2, graph3, graph4]"
    and "k \<in> set [graph1, graph2, graph3, graph4]"
    and "g st = Inr s1" and "h s1 = Inr s2" and "df u' = df u"
  shows "df s1 = df st \<and> df s2 = df st \<and>
         (\<exists>s1' s2'. h st = Inr s1' \<and> g s1' = Inr s2' \<and> df s2' = df st \<and>
            set (saved (plt s2')) = set (saved (plt s2))) \<and>
         map_sum id (\<lambda>s. (df s, last (saved (plt s)))) (k u') =
         map_sum id (\<lambda>s. (df s, last (saved (plt s)))) (k u)"
proof -
  from pass_of_list [OF assms(1)] obtain ng where
    G: "\<forall>t. \<exists>r. \<forall>st. df st = t \<longrightarrow> g st = and_then r (\<lambda>ls. Inr (emit ng ls st))"
    by blast
  from pass_of_list [OF assms(2)] obtain nh where
    H: "\<forall>t. \<exists>r. \<forall>st. df st = t \<longrightarrow> h st = and_then r (\<lambda>ls. Inr (emit nh ls st))"
    by blast
  from pass_of_list [OF assms(3)] obtain nk where
    K: "\<forall>t. \<exists>r. \<forall>st. df st = t \<longrightarrow> k st = and_then r (\<lambda>ls. Inr (emit nk ls st))"
    by blast
  from pass_result [OF G assms(4)] obtain lg where
    lg: "s1 = emit ng lg st" "\<And>st'. df st' = df st \<Longrightarrow> g st' = Inr (emit ng lg st')"
    by blast
  from pass_result [OF H assms(5)] obtain lh where
    lh: "s2 = emit nh lh s1" "\<And>st'. df st' = df s1 \<Longrightarrow> h st' = Inr (emit nh lh st')"
    by blast
  have d1: "df s1 = df st" by (simp add: lg(1) df_emit)
  have d2: "df s2 = df st" by (simp add: lh(1) lg(1) df_emit)
  have hs: "h st = Inr (emit nh lh st)"
    by (rule lh(2)) (simp add: d1)
  have gs: "g (emit nh lh st) = Inr (emit ng lg (emit nh lh st))"
    by (rule lg(2)) (simp add: df_emit)
  have "set (saved (plt (emit ng lg (emit nh lh st)))) = set (saved (plt s2))"
    by (auto simp: lh(1) lg(1) saved_emit)
  with hs gs have c: "\<exists>s1' s2'. h st = Inr s1' \<and> g s1' = Inr s2' \<and> df s2' = df st \<and>
            set (saved (plt s2')) = set (saved (plt s2))"
    by (metis df_emit)
  from d1 d2 c pass_outcome [OF K assms(6)] show ?thesis by blast
qed

theorem passes_are_independent_witness:
  "graph1 \<in> set [graph1, graph2, graph3, graph4] \<and>
   graph4 \<in> set [graph1, graph2, graph3, graph4] \<and>
   graph2 \<in> set [graph1, graph2, graph3, graph4] \<and>
   graph1 state_without_size = Inr (emit (str ''fill_comparison.png'') [] state_without_size) \<and>
   graph4 (emit (str ''fill_comparison.png'') [] state_without_size) =
     Inr (emit (str ''memory_allocation.png'') []
            (emit (str ''fill_comparison.png'') [] state_without_size)) \<and>
   df (emit (str ''fill_comparison.png'') [] state_without_size) = df state_without_size \<and>
   df (emit (str ''memory_allocation.png'') []
         (emit (str ''fill_comparison.png'') [] state_without_size)) = df state_without_size \<and>
   (\<exists>s1' s2'. graph4 state_without_size = Inr s1' \<and> graph1 s1' = Inr s2' \<and>
      df s2' = df state_without_size \<and>
      set (saved (plt s2')) =
      set (saved (plt (emit (str ''memory_allocation.png'') []
                         (emit (str ''fill_comparison.png'') [] state_without_size))))) \<and>
   map_sum id (\<lambda>s. (df s, last (saved (plt s))))
     (graph2 (emit (str ''fill_comparison.png'') [] state_without_size)) =
   map_sum id (\<lambda>s. (df s, last (saved (plt s)))) (graph2 state_without_size)"
proof -
  have w1: "graph1 \<in> set [graph1, graph2, graph3, graph4]" by simp
  have w2: "graph4 \<in> set [graph1, graph2, graph3, graph4]" by simp
  have w3: "graph2 \<in> set [graph1, graph2, graph3, graph4]" by simp
  have w6: "df (emit (str ''fill_comparison.png'') [] state_without_size) = df state_without_size"
    by (rule df_emit)
  from passes_are_independent
         [OF w1 w2 w3 graph1_state_without_size graph4_after_graph1 w6]
       w1 w2 w3 graph1_state_without_size graph4_after_graph1 w6
  show ?thesis by blast
qed

section \<open>The memory-allocation view\<close>


























section \<open>Loading the report\<close>

subsection \<open>A report without a Size column\<close>

lemma column_names_differ:
  "str ''Method'' \<noteq> str ''Mean''" "str ''Method'' \<noteq> str ''Allocated''"
  "str ''Method'' \<noteq> str ''Size''" "str ''Mean'' \<noteq> str ''Allocated''"
  "str ''Mean'' \<noteq> str ''Size''" "str ''Allocated'' \<noteq> str ''Size''"
  "str ''A'' \<noteq> str ''Method''" "str ''A'' \<noteq> str ''Mean''" "str ''A'' \<noteq> str ''Size''"
  "str ''A'' \<noteq> str ''Allocated''"
  "str ''B'' \<noteq> str ''Method''" "str ''B'' \<noteq> str ''Mean''" "str ''B'' \<noteq> str ''Size''"
  "str ''B'' \<noteq> str ''Allocated''"
  "str ''5us'' \<noteq> []" "str ''GetDiag'' \<noteq> []"
  by (simp_all add: str_def)

lemma read_without_size:
  "read_csv simple_converters (disk file_without_size) report_path = Inr table_without_size"
  using column_names_differ
  by (simp add: read_csv_def disk_def file_without_size_def width_def column_fields_def
      field_at_def to_cell_def simple_converters_def column_dtype_def table_without_size_def
      neq_commute)

lemma read_other_columns:
  "read_csv simple_converters (disk file_other_columns) report_path = Inr table_other_columns"
  using column_names_differ
  by (simp add: read_csv_def disk_def file_other_columns_def width_def column_fields_def
      column_dtype_def table_other_columns_def)

lemma graph1_without_size:
  "graph1 \<lparr>df = table_without_size\<lparr>Mean_us := Some [Finite 5]\<rparr>, plt = \<lparr>lines = [], saved = []\<rparr>\<rparr>
  = Inr \<lparr>df = table_without_size\<lparr>Mean_us := Some [Finite 5]\<rparr>,
         plt = \<lparr>lines = [], saved = [(str ''fill_comparison.png'', [])]\<rparr>\<rparr>"
  by (simp add: graph1_def fill_methods_def table_without_size_def getitem_eval)
     (simp add: frame_eval no_fill_in_GetDiag)

lemma graph2_without_size:
  "graph2 \<lparr>df = table_without_size\<lparr>Mean_us := Some [Finite 5]\<rparr>,
         plt = \<lparr>lines = [], saved = [(str ''fill_comparison.png'', [])]\<rparr>\<rparr>
  = Inr \<lparr>df = table_without_size\<lparr>Mean_us := Some [Finite 5]\<rparr>,
         plt = \<lparr>lines = [], saved = [(str ''fill_comparison.png'', []),
            (str ''foreach_comparison.png'', [])]\<rparr>\<rparr>"
  by (simp add: graph2_def foreach_methods_def table_without_size_def getitem_eval)
     (simp add: frame_eval no_foreach_in_GetDiag)

lemma graph3_without_size:
  "graph3 \<lparr>df = table_without_size\<lparr>Mean_us := Some [Finite 5]\<rparr>,
         plt = \<lparr>lines = [], saved = [(str ''fill_comparison.png'', []),
            (str ''foreach_comparison.png'', [])]\<rparr>\<rparr>
  = Inr \<lparr>df = table_without_size\<lparr>Mean_us := Some [Finite 5]\<rparr>,
         plt = \<lparr>lines = [], saved = [(str ''fill_comparison.png'', []),
            (str ''foreach_comparison.png'', []), (str ''read_operations.png'', [])]\<rparr>\<rparr>"
  by (simp add: graph3_def read_methods_def table_without_size_def getitem_eval)
     (simp add: frame_eval GetDiag_not_read)

lemma graph4_without_size:
  "graph4 \<lparr>df = table_without_size\<lparr>Mean_us := Some [Finite 5]\<rparr>,
         plt = \<lparr>lines = [], saved = [(str ''fill_comparison.png'', []),
            (str ''foreach_comparison.png'', []), (str ''read_operations.png'', [])]\<rparr>\<rparr>
  = Inr \<lparr>df = table_without_size\<lparr>Mean_us := Some [Finite 5]\<rparr>,
         plt = \<lparr>lines = [], saved = [(str ''fill_comparison.png'', []),
            (str ''foreach_comparison.png'', []), (str ''read_operations.png'', []),
            (str ''memory_allocation.png'', [])]\<rparr>\<rparr>"
  by (simp add: graph4_def fill_methods_def allocated_data_def table_without_size_def getitem_eval)
     (simp add: frame_eval no_fill_in_GetDiag)

subsection \<open>The rows of a loaded table\<close>

lemma read_csv_found:
  assumes "fs path = Some (header # data)"
  shows "read_csv conv fs path =
     (if list_ex (\<lambda>r. width header data < length r) data then Inl ParserError
      else Inr \<lparr>index = [0..<length data],
                Method = map_option (map (to_cell conv)) (column_fields header data (str ''Method'')),
                Size = map_option (map (int_of conv)) (column_fields header data (str ''Size'')),
                Mean = map_option (map (to_cell conv)) (column_fields header data (str ''Mean'')),
                Allocated = map_option (map (to_cell conv))
                              (column_fields header data (str ''Allocated'')),
                Mean_us = None,
                Method_dtype = column_dtype conv (column_fields header data (str ''Method'')),
                Allocated_dtype =
                  column_dtype conv (column_fields header data (str ''Allocated''))\<rparr>)"
  using assms by (simp add: read_csv_def)

lemma column_nth:
  assumes "i < length data"
  shows "map_option (\<lambda>col. col ! i) (map_option (map f) (column_fields header data name)) =
         map_option f (named_field header data name (data ! i))"
  using assms
  by (cases "find_column name header") (simp_all add: column_fields_def named_field_def)

lemma read_csv_rows:
  assumes "fs path = Some (header # data)" and "read_csv conv fs path = Inr t"
  shows "index t = [0..<length data]"
    and "table_rows t = map (file_row conv header data) data"
proof -
  from assms have t: "t = \<lparr>index = [0..<length data],
                Method = map_option (map (to_cell conv)) (column_fields header data (str ''Method'')),
                Size = map_option (map (int_of conv)) (column_fields header data (str ''Size'')),
                Mean = map_option (map (to_cell conv)) (column_fields header data (str ''Mean'')),
                Allocated = map_option (map (to_cell conv))
                              (column_fields header data (str ''Allocated'')),
                Mean_us = None,
                Method_dtype = column_dtype conv (column_fields header data (str ''Method'')),
                Allocated_dtype =
                  column_dtype conv (column_fields header data (str ''Allocated''))\<rparr>"
    by (simp add: read_csv_found split: if_splits)
  show "index t = [0..<length data]"
    by (simp add: t)
  have "map (file_row conv header data) data =
          map (\<lambda>i. file_row conv header data (data ! i)) [0..<length data]"
    by (rule nth_equalityI) simp_all
  also have "\<dots> = table_rows t"
    unfolding table_rows_def
    by (rule map_cong) (simp_all add: t file_row_def column_nth)
  finally show "table_rows t = map (file_row conv header data) data"
    by simp
qed

lemma width_header: "length header' = length header \<Longrightarrow> width header' data = width header data"
  by (simp add: width_def split: list.splits)

lemma read_csv_other_header:
  assumes "fs path = Some (header # data)" and "read_csv conv fs path = Inr t"
    and "length header' = length header"
  shows "\<exists>t'. read_csv conv (fs(path := Some (header' # data))) path = Inr t'"
proof -
  from assms(1,2) have "\<not> list_ex (\<lambda>r. width header data < length r) data"
    by (simp add: read_csv_found split: if_splits)
  then show ?thesis
    by (simp add: read_csv_def width_header [OF assms(3)])
qed

lemma read_csv_no_mean:
  assumes "fs path = Some (header # data)" and "read_csv conv fs path = Inr t"
    and "find_column (str ''Mean'') header = None"
  shows "normalize_mean t = Inl (KeyError (str ''Mean''))"
proof -
  from assms have "Mean t = None"
    by (auto simp: read_csv_found column_fields_def split: if_splits)
  then show ?thesis
    by (simp add: normalize_mean_def getitem_eval)
qed

lemma script_without_size:
  "script simple_converters (disk file_without_size) =
     Inr \<lparr>df = table_without_size\<lparr>Mean_us := Some [Finite 5]\<rparr>,
          plt = \<lparr>lines = [],
                 saved = [(str ''fill_comparison.png'', []), (str ''foreach_comparison.png'', []),
                          (str ''read_operations.png'', []), (str ''memory_allocation.png'', [])]\<rparr>\<rparr>"
  by (simp add: script_def read_without_size normalize_without_size and_then_Inr
      graph1_without_size graph2_without_size graph3_without_size graph4_without_size)

subsection \<open>What loading checks\<close>

text \<open>
  Claim C7, as stated, fails in its second part. \<open>read_csv\<close> does not know which columns
  the script needs: a file whose header is \<open>A;B\<close> loads, into a table that has none of
  the four columns. And a report whose header lacks only \<open>Size\<close>, with a single
  \<open>GetDiag\<close> row, goes through the whole script, which saves four charts without series:
  no pass reads \<open>Size\<close> when its selection is empty.
\<close>

theorem load_report_counterexample:
  "hd file_other_columns = [str ''A'', str ''B''] \<and>
   (\<exists>t. read_csv simple_converters (disk file_other_columns) report_path = Inr t \<and>
        Method t = None \<and> Size t = None \<and> Mean t = None \<and> Allocated t = None) \<and>
   hd file_without_size = [str ''Method'', str ''Mean'', str ''Allocated''] \<and>
   (\<exists>st. script simple_converters (disk file_without_size) = Inr st)"
  by (simp add: read_other_columns script_without_size)
     (simp add: file_other_columns_def file_without_size_def table_other_columns_def)

text \<open>
  Claim C7, amended. Loading fails with \<open>FileNotFoundError\<close> when there is no file at the
  path. On success the table has the rows of the file in file order: row \<open>i\<close> of the
  table holds the fields of data line \<open>i\<close> under the names of the header. Success does
  not depend on the names in the header: with any other header of the same length the
  file loads as well. On a file that is there, loading fails with \<open>EmptyDataError\<close> when
  the file has no header line and with \<open>ParserError\<close> when a data line after the first
  has more fields than the longer of the header and the first data line. A missing
  column shows
  later, as \<open>KeyError\<close> where the script first reads it: \<open>Mean\<close> in the normalization,
  \<open>Method\<close> in the first chart pass, \<open>Allocated\<close> in the memory chart pass.
\<close>

theorem load_report_behaviour:
  assumes "fs missing = None" and "fs path = Some (header # data)"
    and "read_csv conv fs path = Inr t" and "length header' = length header"
    and "Method (df st) = None" and "Allocated (df st') = None"
    and "max (length header) (length d) < length long"
  shows "read_csv conv fs missing = Inl FileNotFoundError \<and>
         index t = [0..<length data] \<and>
         table_rows t = map (file_row conv header data) data \<and>
         (\<exists>t'. read_csv conv (fs(path := Some (header' # data))) path = Inr t') \<and>
         (find_column (str ''Mean'') header = None \<longrightarrow>
            normalize_mean t = Inl (KeyError (str ''Mean''))) \<and>
         graph1 st = Inl (KeyError (str ''Method'')) \<and>
         graph4 st' = Inl (KeyError (str ''Allocated'')) \<and>
         read_csv conv (fs(path := Some [])) path = Inl EmptyDataError \<and>
         read_csv conv (fs(path := Some (header # d # pre @ long # post))) path =
           Inl ParserError"
proof -
  have 1: "read_csv conv fs missing = Inl FileNotFoundError"
    using assms(1) by (simp add: read_csv_def)
  note 2 = read_csv_rows [OF assms(2,3)]
  note 3 = read_csv_other_header [OF assms(2,3,4)]
  have 4: "find_column (str ''Mean'') header = None \<longrightarrow>
            normalize_mean t = Inl (KeyError (str ''Mean''))"
    using read_csv_no_mean [OF assms(2,3)] by blast
  have 5: "graph1 st = Inl (KeyError (str ''Method''))"
    using assms(5) by (simp add: graph1_def fill_methods_def getitem_eval)
  have 6: "graph4 st' = Inl (KeyError (str ''Allocated''))"
    using assms(6) by (simp add: graph4_def allocated_data_def getitem_eval)
  have 7: "read_csv conv (fs(path := Some [])) path = Inl EmptyDataError"
    by (simp add: read_csv_def)
  have 8: "read_csv conv (fs(path := Some (header # d # pre @ long # post))) path =
             Inl ParserError"
    using assms(7) by (simp add: read_csv_def width_def)
  from 1 2 3 4 5 6 7 8 show ?thesis by blast
qed

theorem load_report_behaviour_witness:
  "disk file_other_columns (str ''missing.csv'') = None \<and>
   disk file_other_columns report_path = Some ([str ''A'', str ''B''] # [[str ''1'', str ''2'']]) \<and>
   read_csv simple_converters (disk file_other_columns) report_path = Inr table_other_columns \<and>
   length [str ''Method'', str ''Size''] = length [str ''A'', str ''B''] \<and>
   Method (df state_other_columns) = None \<and>
   Allocated (df state_other_columns) = None \<and>
   max (length [str ''A'', str ''B'']) (length [str ''1'']) <
     length [str ''1'', str ''2'', str ''3''] \<and>
   read_csv simple_converters (disk file_other_columns) (str ''missing.csv'') =
     Inl FileNotFoundError \<and>
   index table_other_columns = [0..<length [[str ''1'', str ''2'']]] \<and>
   table_rows table_other_columns =
     map (file_row simple_converters [str ''A'', str ''B''] [[str ''1'', str ''2'']])
       [[str ''1'', str ''2'']] \<and>
   (\<exists>t'. read_csv simple_converters
           ((disk file_other_columns)
              (report_path := Some ([str ''Method'', str ''Size''] # [[str ''1'', str ''2'']])))
           report_path = Inr t') \<and>
   find_column (str ''Mean'') [str ''A'', str ''B''] = None \<and>
   normalize_mean table_other_columns = Inl (KeyError (str ''Mean'')) \<and>
   graph1 state_other_columns = Inl (KeyError (str ''Method'')) \<and>
   graph4 state_other_columns = Inl (KeyError (str ''Allocated'')) \<and>
   read_csv simple_converters ((disk file_other_columns)(report_path := Some [])) report_path =
     Inl EmptyDataError \<and>
   read_csv simple_converters
     ((disk file_other_columns)
        (report_path :=
           Some ([str ''A'', str ''B''] # [str ''1''] # [] @ [str ''1'', str ''2'', str ''3''] # [])))
     report_path = Inl ParserError"
proof -
  have h1: "disk file_other_columns (str ''missing.csv'') = None"
    by (simp add: disk_def report_path_def str_def)
  have h2: "disk file_other_columns report_path =
              Some ([str ''A'', str ''B''] # [[str ''1'', str ''2'']])"
    by (simp add: disk_def file_other_columns_def)
  note h3 = read_other_columns
  have h4: "length [str ''Method'', str ''Size''] = length [str ''A'', str ''B'']"
    by simp
  have h5: "Method (df state_other_columns) = None"
    by (simp add: state_other_columns_def table_other_columns_def)
  have h6: "Allocated (df state_other_columns) = None"
    by (simp add: state_other_columns_def table_other_columns_def)
  have h7: "max (length [str ''A'', str ''B'']) (length [str ''1'']) <
              length [str ''1'', str ''2'', str ''3'']"
    by simp
  have h8: "find_column (str ''Mean'') [str ''A'', str ''B''] = None"
    using column_names_differ by simp
  from load_report_behaviour [where pre = "[]" and post = "[]", OF h1 h2 h3 h4 h5 h6 h7]
    h1 h2 h3 h4 h5 h6 h7 h8
  show ?thesis by blast
qed

end
